theory Spec2Isabelle
  imports Complex_Main "HOL-Library.Multiset" "HOL-Library.Signed_Division"
begin

section \<open>Strings\<close>

text \<open>
  A Go string is modelled as the list of its bytes (\<open>string = char list\<close>). The functions
  of Go's \<open>strings\<close> package that the program calls are written out below. They are exact on
  ASCII text; a byte above 0x7F is never a letter, a digit, white space or a separator here,
  so case mapping and trimming leave it alone (Go maps some non-ASCII runes as well).
\<close>

definition lowerLetters :: string where
  "lowerLetters = ''abcdefghijklmnopqrstuvwxyz''"

definition upperLetters :: string where
  "upperLetters = ''ABCDEFGHIJKLMNOPQRSTUVWXYZ''"

definition digitChars :: string where
  "digitChars = ''0123456789''"

definition isDigit :: "char \<Rightarrow> bool" where
  "isDigit c = (c \<in> set digitChars)"

definition isLetter :: "char \<Rightarrow> bool" where
  "isLetter c = (c \<in> set lowerLetters \<or> c \<in> set upperLetters)"

definition toLowerRune :: "char \<Rightarrow> char" where
  "toLowerRune c = (case map_of (zip upperLetters lowerLetters) c of Some l \<Rightarrow> l | None \<Rightarrow> c)"

definition toUpperRune :: "char \<Rightarrow> char" where
  "toUpperRune c = (case map_of (zip lowerLetters upperLetters) c of Some u \<Rightarrow> u | None \<Rightarrow> c)"

text \<open>\<open>strings.ToLower\<close> and \<open>strings.ToUpper\<close>.\<close>

definition strings_ToLower :: "string \<Rightarrow> string" where
  "strings_ToLower s = map toLowerRune s"

definition strings_ToUpper :: "string \<Rightarrow> string" where
  "strings_ToUpper s = map toUpperRune s"

text \<open>
  \<open>strings.Title\<close>: the letter that follows a separator (or starts the string) is mapped to
  title case. Go's \<open>isSeparator\<close>: ASCII letters, digits and the underscore are not
  separators, every other ASCII character is.
\<close>

definition isSeparator :: "char \<Rightarrow> bool" where
  "isSeparator r = ((of_char r :: nat) \<le> 127 \<and> \<not> isDigit r \<and> \<not> isLetter r \<and> r \<noteq> CHR ''_'')"

fun TitleFrom :: "char \<Rightarrow> string \<Rightarrow> string" where
  "TitleFrom prev [] = []"
| "TitleFrom prev (r # rs) = (if isSeparator prev then toUpperRune r else r) # TitleFrom r rs"

definition strings_Title :: "string \<Rightarrow> string" where
  "strings_Title s = TitleFrom (CHR '' '') s"

text \<open>\<open>strings.Join\<close>, \<open>strings.HasPrefix\<close> and \<open>strings.Contains\<close>.\<close>

fun strings_Join :: "string list \<Rightarrow> string \<Rightarrow> string" where
  "strings_Join [] sep = []"
| "strings_Join [x] sep = x"
| "strings_Join (x # y # ys) sep = x @ sep @ strings_Join (y # ys) sep"

fun strings_HasPrefix :: "string \<Rightarrow> string \<Rightarrow> bool" where
  "strings_HasPrefix s [] = True"
| "strings_HasPrefix [] (p # ps) = False"
| "strings_HasPrefix (c # cs) (p # ps) = (c = p \<and> strings_HasPrefix cs ps)"

fun strings_Contains :: "string \<Rightarrow> string \<Rightarrow> bool" where
  "strings_Contains [] substr = (substr = [])"
| "strings_Contains (c # cs) substr =
     (strings_HasPrefix (c # cs) substr \<or> strings_Contains cs substr)"

section \<open>The canonical model (models.go)\<close>

text \<open>
  \<open>Country\<close>, \<open>Site\<close>, \<open>JobType\<close>, \<open>CompensationInterval\<close> and \<open>DescriptionFormat\<close> are
  string types in the source: every string is a value of the type, and the declared
  constants are some of them.
\<close>

type_synonym Country = string

definition CountryUSA :: Country where "CountryUSA = ''usa''"
definition CountryCanada :: Country where "CountryCanada = ''canada''"
definition CountryUK :: Country where "CountryUK = ''uk''"
definition CountryGermany :: Country where "CountryGermany = ''germany''"
definition CountryFrance :: Country where "CountryFrance = ''france''"

text \<open>A pointer field is an option: \<open>None\<close> is the nil pointer.\<close>

record Location =
  City :: "string option"
  State :: "string option"
  Country :: "Country option"

text \<open>
  \<open>Location.String\<close>, for a receiver that is not nil. \<open>parts\<close> is the slice the method
  appends to, statement by statement.
\<close>

definition Location_String :: "Location \<Rightarrow> string" where
  "Location_String l =
     (let parts = [];
          parts = (case City l of None \<Rightarrow> parts | Some c \<Rightarrow> parts @ [c]);
          parts = (case State l of None \<Rightarrow> parts | Some s \<Rightarrow> parts @ [s]);
          parts = (case Country l of
                     None \<Rightarrow> parts
                   | Some countryStr \<Rightarrow>
                       parts @ [if countryStr = ''usa'' \<or> countryStr = ''uk''
                                then strings_ToUpper countryStr
                                else strings_Title countryStr])
      in strings_Join parts '', '')"

text \<open>
  \<open>locationString\<close> of the command-line front end: the caller of \<open>Location.String\<close> that
  renders an absent location.
\<close>

definition locationString :: "Location option \<Rightarrow> string" where
  "locationString loc = (case loc of None \<Rightarrow> [] | Some l \<Rightarrow> Location_String l)"

text \<open>
  The rendering rule in the specification's words, for comparison with the code: the country
  token is upper-cased when it is a two-letter code and title-cased otherwise.
\<close>

definition spec_countryToken :: "Country \<Rightarrow> string" where
  "spec_countryToken c = (if length c = 2 then strings_ToUpper c else strings_Title c)"

definition spec_Location_String :: "Location \<Rightarrow> string" where
  "spec_Location_String l =
     strings_Join (List.map_filter id [City l, State l, map_option spec_countryToken (Country l)])
       '', ''"

text \<open>A Go slice is an option of a list where the difference between the nil slice and an
  empty slice that is not nil matters: \<open>None\<close> is nil. \<open>append\<close> to it never yields nil.\<close>

fun goAppend :: "'a list option \<Rightarrow> 'a \<Rightarrow> 'a list option" where
  "goAppend None x = Some [x]"
| "goAppend (Some xs) x = Some (xs @ [x])"

type_synonym JobType = string

definition JobTypeFullTime :: JobType where "JobTypeFullTime = ''fulltime''"
definition JobTypePartTime :: JobType where "JobTypePartTime = ''parttime''"
definition JobTypeContract :: JobType where "JobTypeContract = ''contract''"
definition JobTypeTemporary :: JobType where "JobTypeTemporary = ''temporary''"
definition JobTypeInternship :: JobType where "JobTypeInternship = ''internship''"

type_synonym CompensationInterval = string

definition IntervalYearly :: CompensationInterval where "IntervalYearly = ''yearly''"
definition IntervalMonthly :: CompensationInterval where "IntervalMonthly = ''monthly''"
definition IntervalHourly :: CompensationInterval where "IntervalHourly = ''hourly''"

text \<open>
  A \<open>float64\<close> amount is modelled by the rational number it denotes (the amounts of this
  program are finite: they are results of \<open>strconv.ParseFloat\<close> that came without an error).
\<close>

record Compensation =
  Interval :: "CompensationInterval option"
  MinAmount :: "rat option"
  MaxAmount :: "rat option"
  Currency :: "string option"

type_synonym DescriptionFormat = string

definition FormatMarkdown :: DescriptionFormat where "FormatMarkdown = ''markdown''"
definition FormatHTML :: DescriptionFormat where "FormatHTML = ''html''"
definition FormatPlain :: DescriptionFormat where "FormatPlain = ''plain''"

text \<open>
  \<open>JobPost\<close>, with the fields that the Indeed adapter assigns. The other fields of the
  struct (\<open>JobURLDirect\<close>, \<open>CompanyURL\<close>, \<open>DatePosted\<close>, \<open>ListingType\<close> and the site-specific
  ones) are nil in every posting this program builds.
\<close>

record JobPost =
  ID :: "string option"
  Title :: string
  CompanyName :: "string option"
  JobURL :: string
  Location :: "Location option"
  Description :: "string option"
  JobType :: "JobType list option"
  Compensation :: "Compensation option"
  Emails :: "string list option"
  IsRemote :: "bool option"

text \<open>\<open>JobResponse\<close>. The nil slice and the empty slice of postings are both \<open>[]\<close>.\<close>

record JobResponse =
  Jobs :: "JobPost list"

text \<open>
  \<open>ScraperInput\<close>, with the fields that the orchestrator and the Indeed adapter read.
  \<open>GoogleSearchTerm\<close>, \<open>JobType\<close>, \<open>EasyApply\<close>, \<open>LinkedInFetchDescription\<close>,
  \<open>LinkedInCompanyIDs\<close>, \<open>RequestTimeout\<close> and \<open>HoursOld\<close> are only stored. A Go \<open>int\<close> is an
  \<open>int\<close> here, and the one sum that can overflow is wrapped to 64 bits where it is computed.
\<close>

type_synonym Site = string

definition SiteLinkedIn :: Site where "SiteLinkedIn = ''linkedin''"
definition SiteIndeed :: Site where "SiteIndeed = ''indeed''"
definition SiteZipRecruiter :: Site where "SiteZipRecruiter = ''zip_recruiter''"
definition SiteGlassdoor :: Site where "SiteGlassdoor = ''glassdoor''"
definition SiteGoogle :: Site where "SiteGoogle = ''google''"
definition SiteBayt :: Site where "SiteBayt = ''bayt''"
definition SiteNaukri :: Site where "SiteNaukri = ''naukri''"
definition SiteBDJobs :: Site where "SiteBDJobs = ''bdjobs''"

record ScraperInput =
  SiteType :: "Site list"
  SearchTerm :: "string option"
  Location_si :: "string option"
  Country_si :: "Country option"
  Distance :: "int option"
  IsRemote_si :: bool
  Offset :: int
  DescriptionFormat :: "DescriptionFormat option"
  ResultsWanted :: int

text \<open>
  The error values of the program, one constructor for each \<open>fmt.Errorf\<close>. An error of a
  package outside the repository is kept as its text.
\<close>

datatype error =
    ErrUnknownSite string
  | ErrUnsupportedSiteNameType
  | ErrParsingSites error
  | ErrScrapingPage int error
  | ErrMakingRequest string
  | ErrUnexpectedStatus int
  | ErrParsingHTML string

text \<open>
  A call either returns or panics at run time (a slice expression out of bounds). A panic
  that nothing recovers ends the process.
\<close>

datatype 'a outcome = Returns 'a | Panics

section \<open>The standard library and the third-party packages\<close>

text \<open>
  Functions of packages outside the repository whose results the program only passes on
  are parameters of the model, collected in one record:
  \<^item> \<open>ParseFloat s\<close> is \<open>strconv.ParseFloat(s, 64)\<close>, \<open>None\<close> when it returns an error;
  \<^item> \<open>FindAllEmails text\<close> is \<open>FindAllString(text, -1)\<close> of the e-mail pattern, a slice;
  \<^item> \<open>ConvertString html\<close> is the HTML-to-markdown converter, \<open>Inl\<close> its error;
  \<^item> \<open>DocumentText html\<close> is the text of the document goquery parses from \<open>html\<close>;
  \<^item> \<open>QueryStart href\<close> is \<open>url.Parse(href)\<close> followed by \<open>Query().Get("start")\<close>, \<open>None\<close> when
    the URL does not parse;
  \<^item> \<open>ParsesAsURL s\<close> says that \<open>url.Parse(s)\<close> returns no error.
\<close>

record stdlib =
  ParseFloat :: "string \<Rightarrow> rat option"
  FindAllEmails :: "string \<Rightarrow> string list option"
  ConvertString :: "string \<Rightarrow> string + string"
  DocumentText :: "string \<Rightarrow> string + string"
  QueryStart :: "string \<Rightarrow> string option"
  ParsesAsURL :: "string \<Rightarrow> bool"

section \<open>Utilities (utils.go)\<close>

text \<open>\<open>unicode.IsSpace\<close> on ASCII, and \<open>strings.TrimSpace\<close>.\<close>

definition isSpace :: "char \<Rightarrow> bool" where
  "isSpace c = (c \<in> {CHR 0x09, CHR 0x0A, CHR 0x0B, CHR 0x0C, CHR 0x0D, CHR '' ''})"

definition strings_TrimSpace :: "string \<Rightarrow> string" where
  "strings_TrimSpace s = rev (dropWhile isSpace (rev (dropWhile isSpace s)))"

text \<open>
  \<open>ProxyRotator\<close>, \<open>NewProxyRotator\<close> and \<open>Next\<close>, which returns the proxy and leaves the
  rotator advanced. The fields are not exported: \<open>current\<close> is 0 or a remainder that \<open>Next\<close>
  stored, so the index is in range whenever the list is not empty (\<open>rotatorOK\<close> below), and
  Go's remainder \<open>%\<close> truncates (\<open>smod\<close>).
\<close>

record ProxyRotator =
  proxies :: "string list"
  current :: int

definition NewProxyRotator :: "string list \<Rightarrow> ProxyRotator" where
  "NewProxyRotator ps = \<lparr>proxies = ps, current = 0\<rparr>"

definition Next :: "ProxyRotator \<Rightarrow> string \<times> ProxyRotator" where
  "Next pr =
     (if length (proxies pr) = 0 then ([], pr)
      else (let proxy = proxies pr ! nat (current pr)
            in (proxy, pr\<lparr>current := (current pr + 1) smod int (length (proxies pr))\<rparr>)))"


text \<open>
  \<open>HTTPClient\<close>: the rotator (nil when no proxy was given), the user agent, and the proxy of
  the transport that \<open>Get\<close> last installed in the shared \<open>http.Client\<close>.
\<close>

record HTTPClient =
  proxyRotator :: "ProxyRotator option"
  userAgent :: string
  transportProxy :: "string option"

definition defaultUserAgent :: string where
  "defaultUserAgent = ''Mozilla/5.0 (Windows NT 10.0; Win64; x64) AppleWebKit/537.36 (KHTML, like Gecko) Chrome/120.0.0.0 Safari/537.36''"

definition NewHTTPClient :: "string list \<Rightarrow> string \<Rightarrow> HTTPClient" where
  "NewHTTPClient ps ua =
     \<lparr>proxyRotator = (if length ps > 0 then Some (NewProxyRotator ps) else None),
      userAgent = (if ua = [] then defaultUserAgent else ua),
      transportProxy = None\<rparr>"

text \<open>
  The network is the environment of the program. A request is the base URL with the query
  parameters that \<open>scrapePage\<close> sets; a response is its status code and the document that
  goquery parses from its body (\<open>Inl\<close> when the body cannot be read). A card is one element
  that matches \<^verbatim>\<open>[data-jk]\<close> with what \<open>parseJobCard\<close> reads from it; a selection that
  matches nothing is \<open>None\<close> where the code tests its length, and has the empty text.
\<close>

record params =
  param_q :: "string option"
  param_l :: "string option"
  param_radius :: "int option"
  param_remotejob :: bool
  param_start :: "string option"

record request =
  req_base :: string
  req_params :: params

record card =
  card_jk :: "string option"
  card_titleSpan :: "string option"
  card_titleAnchor :: string
  card_company :: string
  card_jobLocation :: "string option"
  card_companyLocation :: string
  card_salary :: "string option"
  card_summary :: string

datatype next_link = NoNextLink | NextLinkWithoutHref | NextLinkHref string

record document =
  cards :: "card list"
  nextLink :: next_link

record response =
  StatusCode :: int
  Body :: "string + document"

text \<open>
  What the network answers to a request sent through the given transport proxy with the
  given user agent: a transport error or a response. Every request ends, because the client
  is built with a timeout of 60 seconds. \<open>http.NewRequestWithContext\<close> has no branch here:
  the URL is the base URL of a fixed domain followed by the encoded parameters, which
  always parses.
\<close>

type_synonym network = "string option \<Rightarrow> string \<Rightarrow> request \<Rightarrow> string + response"

text \<open>\<open>HTTPClient.Get\<close>: one call of \<open>Next\<close> for every request when there is a rotator.\<close>

definition HTTPClient_Get ::
  "stdlib \<Rightarrow> network \<Rightarrow> HTTPClient \<Rightarrow> request \<Rightarrow> (string + response) \<times> HTTPClient" where
  "HTTPClient_Get lib net hc req =
     (let hc = (case proxyRotator hc of
                  None \<Rightarrow> hc
                | Some pr \<Rightarrow>
                    (let (proxy, pr') = Next pr;
                         hc = hc\<lparr>proxyRotator := Some pr'\<rparr>
                     in if proxy \<noteq> [] \<and> ParsesAsURL lib proxy
                        then hc\<lparr>transportProxy := Some proxy\<rparr> else hc))
      in (net (transportProxy hc) (userAgent hc) req, hc))"

text \<open>
  \<open>MarkdownConverter\<close> and \<open>PlainConverter\<close>. The pattern \<^verbatim>\<open>\s\<close> is the ASCII white space
  without the vertical tab; every run of it becomes one space.
\<close>

definition isRegexSpace :: "char \<Rightarrow> bool" where
  "isRegexSpace c = (c \<in> {CHR 0x09, CHR 0x0A, CHR 0x0C, CHR 0x0D, CHR '' ''})"

function collapseSpace :: "string \<Rightarrow> string" where
  "collapseSpace [] = []"
| "collapseSpace (c # cs) =
     (if isRegexSpace c then CHR '' '' # collapseSpace (dropWhile isRegexSpace cs)
      else c # collapseSpace cs)"
  by pat_completeness auto
termination
  by (relation "measure length") (auto intro: le_imp_less_Suc length_dropWhile_le)

definition MarkdownConverter :: "stdlib \<Rightarrow> string \<Rightarrow> string" where
  "MarkdownConverter lib html =
     (if html = [] then []
      else (case ConvertString lib html of
              Inl err \<Rightarrow> html
            | Inr markdown \<Rightarrow> strings_TrimSpace markdown))"

definition PlainConverter :: "stdlib \<Rightarrow> string \<Rightarrow> string" where
  "PlainConverter lib html =
     (if html = [] then []
      else (case DocumentText lib html of
              Inl err \<Rightarrow> html
            | Inr txt \<Rightarrow> strings_TrimSpace (collapseSpace txt)))"

text \<open>
  \<open>SetLogLevel\<close>: the floor of the logger, as the number of the \<open>slog\<close> level (\<open>Info\<close> is 0,
  \<open>Warn\<close> is 4, \<open>Error\<close> is 8). A record is printed when its level is at least the floor.
\<close>

definition LevelInfo :: int where "LevelInfo = 0"
definition LevelWarn :: int where "LevelWarn = 4"
definition LevelError :: int where "LevelError = 8"

definition SetLogLevel :: "int \<Rightarrow> int" where
  "SetLogLevel verbose =
     (if verbose = 0 then LevelError else if verbose = 1 then LevelWarn else LevelInfo)"

text \<open>\<open>MapStringToSite\<close> and \<open>CountryFromString\<close>.\<close>

definition MapStringToSite :: "string \<Rightarrow> error + Site" where
  "MapStringToSite s =
     (let l = strings_ToLower s
      in if l = ''linkedin'' then Inr SiteLinkedIn
         else if l = ''indeed'' then Inr SiteIndeed
         else if l = ''zip_recruiter'' \<or> l = ''ziprecruiter'' then Inr SiteZipRecruiter
         else if l = ''glassdoor'' then Inr SiteGlassdoor
         else if l = ''google'' then Inr SiteGoogle
         else if l = ''bayt'' then Inr SiteBayt
         else if l = ''naukri'' then Inr SiteNaukri
         else if l = ''bdjobs'' then Inr SiteBDJobs
         else Inl (ErrUnknownSite s))"

definition CountryFromString :: "string \<Rightarrow> Country option" where
  "CountryFromString s0 =
     (let s = strings_ToLower s0
      in if s = ''usa'' \<or> s = ''us'' \<or> s = ''united states'' then Some CountryUSA
         else if s = ''canada'' \<or> s = ''ca'' then Some CountryCanada
         else if s = ''uk'' \<or> s = ''united kingdom'' \<or> s = ''gb'' then Some CountryUK
         else if s = ''germany'' \<or> s = ''de'' then Some CountryGermany
         else if s = ''france'' \<or> s = ''fr'' then Some CountryFrance
         else None)"

text \<open>\<open>ExtractEmailsFromText\<close>.\<close>

definition ExtractEmailsFromText :: "stdlib \<Rightarrow> string \<Rightarrow> string list option" where
  "ExtractEmailsFromText lib text =
     (if text = [] then None
      else (let emails = FindAllEmails lib text
            in if length (case emails of None \<Rightarrow> [] | Some es \<Rightarrow> es) = 0 then None
               else emails))"

section \<open>The Indeed adapter: normalisation (indeed\_scraper.go)\<close>

text \<open>
  The salary pattern is \<^verbatim>\<open>\$?([\d,]+(?:\.\d{2})?)\<close>. One match at the start of a string: an
  optional dollar sign, the longest run of digits and commas (not empty), and then a dot
  with two digits when they follow. Every quantifier is greedy and nothing follows the
  optional group, so the first alternative the engine tries is the one below. The result
  is the text of group 1 and the rest of the string after the match.
\<close>

definition isAmountChar :: "char \<Rightarrow> bool" where
  "isAmountChar c = (isDigit c \<or> c = CHR '','')"

definition matchSalaryAt :: "string \<Rightarrow> (string \<times> string) option" where
  "matchSalaryAt s =
     (let t = (case s of [] \<Rightarrow> s | c # cs \<Rightarrow> if c = CHR ''$'' then cs else s);
          body = takeWhile isAmountChar t;
          rest = dropWhile isAmountChar t
      in if body = [] then None
         else (case rest of
                 p # d1 # d2 # rest' \<Rightarrow>
                   if p = CHR ''.'' \<and> isDigit d1 \<and> isDigit d2
                   then Some (body @ [p, d1, d2], rest')
                   else Some (body, rest)
               | _ \<Rightarrow> Some (body, rest)))"

lemma matchSalaryAt_shorter:
  assumes "matchSalaryAt s = Some (g, rest)"
  shows "length rest < length s"
proof -
  define t where "t = (case s of [] \<Rightarrow> s | c # cs \<Rightarrow> if c = CHR ''$'' then cs else s)"
  define b where "b = takeWhile isAmountChar t"
  define r where "r = dropWhile isAmountChar t"
  have t_le: "length t \<le> length s"
    by (cases s) (simp_all add: t_def)
  have unfolded: "matchSalaryAt s =
      (if b = [] then None
       else (case r of
               p # d1 # d2 # rest' \<Rightarrow>
                 if p = CHR ''.'' \<and> isDigit d1 \<and> isDigit d2
                 then Some (b @ [p, d1, d2], rest') else Some (b, r)
             | _ \<Rightarrow> Some (b, r)))"
    unfolding matchSalaryAt_def b_def r_def t_def Let_def by (rule refl)
  from assms unfolded have body: "b \<noteq> []"
    by (auto split: if_splits)
  have "length b + length r = length t"
    unfolding b_def r_def by (metis length_append takeWhile_dropWhile_id)
  with body have drop_lt: "length r < length t"
    by (cases b) simp_all
  from assms unfolded body have "length rest \<le> length r"
    by (auto split: if_splits list.splits)
  with drop_lt t_le show ?thesis by simp
qed

text \<open>
  \<open>FindAllStringSubmatch(salaryText, -1)\<close> for that pattern, as the list of the texts of
  group 1: the leftmost match, then the search goes on right after it.
\<close>

function salaryMatches :: "string \<Rightarrow> string list" where
  "salaryMatches [] = []"
| "salaryMatches (c # cs) =
     (case matchSalaryAt (c # cs) of
        None \<Rightarrow> salaryMatches cs
      | Some (g, rest) \<Rightarrow> g # salaryMatches rest)"
  by pat_completeness auto
termination
  by (relation "measure length") (auto dest: matchSalaryAt_shorter)

text \<open>\<open>parseSalary\<close>. \<open>strings.Replace(m, ",", "", -1)\<close> removes every comma.\<close>

definition parseSalary :: "stdlib \<Rightarrow> string \<Rightarrow> Compensation option" where
  "parseSalary lib salaryText =
     (if salaryText = [] then None
      else (let matches = salaryMatches salaryText
            in if length matches = 0 then None
               else (let compensation =
                           \<lparr>Interval = None, MinAmount = None, MaxAmount = None,
                            Currency = Some ''USD''\<rparr>;
                         amounts = List.map_filter
                           (\<lambda>m. ParseFloat lib (filter (\<lambda>c. c \<noteq> CHR '','') m)) matches;
                         compensation =
                           (case amounts of
                              [] \<Rightarrow> compensation
                            | [a] \<Rightarrow> compensation\<lparr>MinAmount := Some a, MaxAmount := Some a\<rparr>
                            | a # b # _ \<Rightarrow> compensation\<lparr>MinAmount := Some a, MaxAmount := Some b\<rparr>);
                         salaryLower = strings_ToLower salaryText
                     in Some
                          (if strings_Contains salaryLower ''year''
                              \<or> strings_Contains salaryLower ''annual''
                           then compensation\<lparr>Interval := Some IntervalYearly\<rparr>
                           else if strings_Contains salaryLower ''hour''
                           then compensation\<lparr>Interval := Some IntervalHourly\<rparr>
                           else if strings_Contains salaryLower ''month''
                           then compensation\<lparr>Interval := Some IntervalMonthly\<rparr>
                           else compensation))))"

text \<open>\<open>isJobRemote\<close> and \<open>extractJobType\<close>.\<close>

definition isJobRemote :: "string \<Rightarrow> string \<Rightarrow> bool" where
  "isJobRemote description location =
     (let combined = strings_ToLower (description @ '' '' @ location)
      in list_ex (strings_Contains combined)
           [''remote'', ''work from home'', ''wfh'', ''telecommute'', ''virtual''])"

definition extractJobType :: "string \<Rightarrow> JobType list option" where
  "extractJobType description0 =
     (let description = strings_ToLower description0;
          jobTypes = None;
          jobTypes = (if strings_Contains description ''full-time''
                         \<or> strings_Contains description ''fulltime''
                      then goAppend jobTypes JobTypeFullTime else jobTypes);
          jobTypes = (if strings_Contains description ''part-time''
                         \<or> strings_Contains description ''parttime''
                      then goAppend jobTypes JobTypePartTime else jobTypes);
          jobTypes = (if strings_Contains description ''contract''
                      then goAppend jobTypes JobTypeContract else jobTypes);
          jobTypes = (if strings_Contains description ''intern''
                      then goAppend jobTypes JobTypeInternship else jobTypes);
          jobTypes = (if strings_Contains description ''temporary''
                      then goAppend jobTypes JobTypeTemporary else jobTypes)
      in jobTypes)"

text \<open>
  \<open>parseLocation\<close>. \<open>strings.Split\<close> is called with the one-byte separator \<open>","\<close>. The
  pattern \<^verbatim>\<open>\s+\d+.*\<close> matches where white space is followed by a digit, up to the end
  of the line, and \<open>ReplaceAllString\<close> deletes every match.
\<close>

fun strings_Split :: "string \<Rightarrow> char \<Rightarrow> string list" where
  "strings_Split [] sep = [[]]"
| "strings_Split (c # cs) sep =
     (if c = sep then [] # strings_Split cs sep
      else (case strings_Split cs sep of
              [] \<Rightarrow> [[c]]
            | p # ps \<Rightarrow> (c # p) # ps))"

function stripPostal :: "string \<Rightarrow> string" where
  "stripPostal [] = []"
| "stripPostal (c # cs) =
     (if isRegexSpace c
         \<and> (case dropWhile isRegexSpace cs of [] \<Rightarrow> False | d # _ \<Rightarrow> isDigit d)
      then stripPostal (dropWhile (\<lambda>x. x \<noteq> CHR 0x0A) (dropWhile isRegexSpace cs))
      else c # stripPostal cs)"
  by pat_completeness auto
termination
  by (relation "measure length")
    (auto intro!: le_imp_less_Suc intro: order_trans[OF length_dropWhile_le] length_dropWhile_le)

definition parseLocation :: "string \<Rightarrow> Country option \<Rightarrow> Location option" where
  "parseLocation locationText country =
     (if locationText = [] then None
      else (let parts = strings_Split locationText (CHR '','');
                location = \<lparr>City = None, State = None, Country = None\<rparr>;
                location = (if length parts \<ge> 1
                            then location\<lparr>City := Some (strings_TrimSpace (parts ! 0))\<rparr>
                            else location);
                location = (if length parts \<ge> 2
                            then location\<lparr>State :=
                                   Some (stripPostal (strings_TrimSpace (parts ! 1)))\<rparr>
                            else location);
                location = (case country of
                              None \<Rightarrow> location
                            | Some c \<Rightarrow> location\<lparr>Country := Some c\<rparr>)
            in Some location))"

text \<open>\<open>parseJobCard\<close>: \<open>None\<close> is the nil posting of a card that is discarded.\<close>

definition parseJobCard :: "stdlib \<Rightarrow> card \<Rightarrow> string \<Rightarrow> ScraperInput \<Rightarrow> JobPost option" where
  "parseJobCard lib s baseURL input =
     (case card_jk s of
        None \<Rightarrow> None
      | Some jobKey \<Rightarrow>
          (let titleEl = (case card_titleSpan s of None \<Rightarrow> card_titleAnchor s | Some t \<Rightarrow> t);
               title = strings_TrimSpace titleEl
           in if title = [] then None
              else (let companyName = strings_TrimSpace (card_company s);
                        locationEl = (case card_jobLocation s of
                                        None \<Rightarrow> card_companyLocation s
                                      | Some t \<Rightarrow> t);
                        locationText = strings_TrimSpace locationEl;
                        location = parseLocation locationText (Country_si input);
                        jobURL = baseURL @ ''/viewjob?jk='' @ jobKey;
                        compensation = (case card_salary s of
                                          None \<Rightarrow> None
                                        | Some salaryText \<Rightarrow> parseSalary lib salaryText);
                        description = strings_TrimSpace (card_summary s);
                        description =
                          (case DescriptionFormat input of
                             None \<Rightarrow> description
                           | Some f \<Rightarrow>
                               if f = FormatMarkdown then MarkdownConverter lib description
                               else if f = FormatPlain then PlainConverter lib description
                               else description);
                        isRemote = isJobRemote description locationText;
                        emails = ExtractEmailsFromText lib description;
                        jobTypes = extractJobType description
                    in Some \<lparr>ID = Some jobKey, Title = title, CompanyName = Some companyName,
                             JobURL = jobURL, Location = location,
                             Description = Some description, JobType = jobTypes,
                             Compensation = compensation, Emails = emails,
                             IsRemote = Some isRemote\<rparr>)))"

section \<open>The Indeed adapter: pagination and deduplication (indeed\_scraper.go)\<close>

text \<open>
  \<open>IndeedScraper\<close> with the fields of the embedded \<open>BaseScraper\<close>. \<open>seenURLs\<close> is a Go
  \<open>map[string]bool\<close>: a partial map, and reading a key that is absent gives \<open>false\<close>.
\<close>

record IndeedScraper =
  bs_site :: Site
  bs_httpClient :: HTTPClient
  bs_baseURL :: string
  apiURL :: string
  apiCountryCode :: string
  jobsPerPage :: int
  seenURLs :: "string \<rightharpoonup> bool"

definition mapIndex :: "('k \<rightharpoonup> bool) \<Rightarrow> 'k \<Rightarrow> bool" where
  "mapIndex m k = (case m k of None \<Rightarrow> False | Some b \<Rightarrow> b)"

definition NewIndeedScraper :: "string list \<Rightarrow> string \<Rightarrow> IndeedScraper" where
  "NewIndeedScraper ps ua =
     \<lparr>bs_site = SiteIndeed, bs_httpClient = NewHTTPClient ps ua,
      bs_baseURL = ''https://www.indeed.com'', apiURL = ''https://apis.indeed.com/graphql'',
      apiCountryCode = [], jobsPerPage = 100, seenURLs = Map.empty\<rparr>"

definition getCountryDomain :: "Country option \<Rightarrow> string \<times> string" where
  "getCountryDomain country =
     (case country of
        None \<Rightarrow> (''www'', ''us'')
      | Some c \<Rightarrow>
          if c = CountryUSA then (''www'', ''us'')
          else if c = CountryCanada then (''ca'', ''ca'')
          else if c = CountryUK then (''uk'', ''gb'')
          else if c = CountryGermany then (''de'', ''de'')
          else if c = CountryFrance then (''fr'', ''fr'')
          else (''www'', ''us''))"

text \<open>
  The function that \<open>scrapePage\<close> passes to \<open>Each\<close>, run on one card: the posting is appended
  unless its URL has been seen, and the URL is marked as seen.
\<close>

definition eachCard ::
  "stdlib \<Rightarrow> string \<Rightarrow> ScraperInput \<Rightarrow> JobPost list \<times> IndeedScraper \<Rightarrow> card
     \<Rightarrow> JobPost list \<times> IndeedScraper" where
  "eachCard lib baseURL input acc s =
     (case parseJobCard lib s baseURL input of
        None \<Rightarrow> acc
      | Some job \<Rightarrow>
          (let jobURL = JobURL job
           in if \<not> mapIndex (seenURLs (snd acc)) jobURL
              then (fst acc @ [job],
                    (snd acc)\<lparr>seenURLs := (seenURLs (snd acc))(jobURL \<mapsto> True)\<rparr>)
              else acc))"

text \<open>
  \<open>scrapePage\<close>: the result (an error, or the new postings with the next cursor) and the
  scraper as the call leaves it. \<open>net\<close> is the network at the time of the call.
\<close>

definition scrapePage ::
  "stdlib \<Rightarrow> network \<Rightarrow> ScraperInput \<Rightarrow> string \<Rightarrow> string \<Rightarrow> IndeedScraper
     \<Rightarrow> (error + JobPost list \<times> string) \<times> IndeedScraper" where
  "scrapePage lib net input cursorArg baseURL isc =
     (let ps = \<lparr>param_q = SearchTerm input, param_l = Location_si input,
                param_radius = Distance input, param_remotejob = IsRemote_si input,
                param_start = (if cursorArg \<noteq> [] then Some cursorArg else None)\<rparr>;
          got = HTTPClient_Get lib net (bs_httpClient isc) \<lparr>req_base = baseURL, req_params = ps\<rparr>;
          isc = isc\<lparr>bs_httpClient := snd got\<rparr>
      in case fst got of
           Inl err \<Rightarrow> (Inl (ErrMakingRequest err), isc)
         | Inr resp \<Rightarrow>
             if StatusCode resp \<noteq> 200 then (Inl (ErrUnexpectedStatus (StatusCode resp)), isc)
             else (case Body resp of
                     Inl err \<Rightarrow> (Inl (ErrParsingHTML err), isc)
                   | Inr doc \<Rightarrow>
                       (let done = foldl (eachCard lib baseURL input) ([], isc) (cards doc);
                            nextCursor =
                              (case nextLink doc of
                                 NoNextLink \<Rightarrow> []
                               | NextLinkWithoutHref \<Rightarrow> []
                               | NextLinkHref href \<Rightarrow>
                                   (case QueryStart lib href of None \<Rightarrow> [] | Some v \<Rightarrow> v))
                        in (Inr (fst done, nextCursor), snd done))))"

text \<open>
  The state of the loop of \<open>Scrape\<close>: its three variables. The sum of two Go integers wraps;
  \<open>int\<close> is taken as 64 bits wide, its width on every 64-bit platform.
\<close>

record walk =
  allJobs :: "JobPost list"
  page :: int
  cursor :: string

definition wrap64 :: "int \<Rightarrow> int" where
  "wrap64 x = (x + 2 ^ 63) mod 2 ^ 64 - 2 ^ 63"

text \<open>
  One iteration of the loop whose condition holds: the error that \<open>Scrape\<close> returns, the
  state with which the loop is left (\<open>break\<close>), or the state with which it goes on.
\<close>

datatype step = Failed error | Break walk | Continue walk

definition pageStep ::
  "stdlib \<Rightarrow> (int \<Rightarrow> network) \<Rightarrow> ScraperInput \<Rightarrow> string \<Rightarrow> walk \<Rightarrow> IndeedScraper
     \<Rightarrow> step \<times> IndeedScraper" where
  "pageStep lib world input baseURL w isc =
     (let got = scrapePage lib (world (page w)) input (cursor w) baseURL isc
      in case fst got of
           Inl err \<Rightarrow> (Failed (ErrScrapingPage (page w) err), snd got)
         | Inr r \<Rightarrow>
             if length (fst r) = 0 then (Break w, snd got)
             else (let w' = \<lparr>allJobs = allJobs w @ fst r, page = page w + 1, cursor = snd r\<rparr>
                   in if cursor w' = [] then (Break w', snd got) else (Continue w', snd got)))"

definition target :: "ScraperInput \<Rightarrow> int" where
  "target input = wrap64 (ResultsWanted input + Offset input)"

lemma pageStep_Continue_longer:
  assumes "pageStep lib world input baseURL w isc = (Continue w', isc')"
  shows "length (allJobs w) < length (allJobs w')"
  using assms
  by (auto simp: pageStep_def Let_def split: sum.splits if_splits)

text \<open>The loop of \<open>Scrape\<close>: \<open>for len(allJobs) < input.ResultsWanted+input.Offset\<close>.\<close>

function pageLoop ::
  "stdlib \<Rightarrow> (int \<Rightarrow> network) \<Rightarrow> ScraperInput \<Rightarrow> string \<Rightarrow> walk \<Rightarrow> IndeedScraper
     \<Rightarrow> (error + walk) \<times> IndeedScraper" where
  "pageLoop lib world input baseURL w isc =
     (if int (length (allJobs w)) < target input
      then (case pageStep lib world input baseURL w isc of
              (Failed err, isc') \<Rightarrow> (Inl err, isc')
            | (Break w', isc') \<Rightarrow> (Inr w', isc')
            | (Continue w', isc') \<Rightarrow> pageLoop lib world input baseURL w' isc')
      else (Inr w, isc))"
  by pat_completeness auto
termination
  by (relation "measure (\<lambda>(lib, world, input, baseURL, w, isc).
        nat (target input - int (length (allJobs w))))")
    (auto dest!: pageStep_Continue_longer[OF sym])

text \<open>
  A slice expression \<open>xs[lo:hi]\<close>, for bounds that are at most the length (as the clamped
  bounds of \<open>Scrape\<close> are): it panics unless \<open>0 \<le> lo \<le> hi\<close>.
\<close>

definition goSlice :: "'a list \<Rightarrow> int \<Rightarrow> int \<Rightarrow> 'a list option" where
  "goSlice xs lo hi =
     (if 0 \<le> lo \<and> lo \<le> hi \<and> hi \<le> int (length xs)
      then Some (take (nat (hi - lo)) (drop (nat lo) xs))
      else None)"

text \<open>The last statements of \<open>Scrape\<close>: the offset and the limit.\<close>

definition applyOffsetLimit :: "ScraperInput \<Rightarrow> JobPost list \<Rightarrow> (error + JobResponse) outcome" where
  "applyOffsetLimit input jobs =
     (let start = Offset input;
          endIdx = wrap64 (Offset input + ResultsWanted input);
          start = (if start > int (length jobs) then int (length jobs) else start);
          endIdx = (if endIdx > int (length jobs) then int (length jobs) else endIdx)
      in case goSlice jobs start endIdx of
           None \<Rightarrow> Panics
         | Some window \<Rightarrow> Returns (Inr \<lparr>Jobs = window\<rparr>))"

text \<open>
  \<open>IndeedScraper.Scrape\<close>. \<open>world p\<close> is the network when the request for page \<open>p\<close> is made.
\<close>

definition IndeedScraper_Scrape ::
  "stdlib \<Rightarrow> (int \<Rightarrow> network) \<Rightarrow> ScraperInput \<Rightarrow> IndeedScraper
     \<Rightarrow> (error + JobResponse) outcome \<times> IndeedScraper" where
  "IndeedScraper_Scrape lib world input isc =
     (let dc = getCountryDomain (Country_si input);
          isc = isc\<lparr>apiCountryCode := snd dc\<rparr>;
          baseURL = ''https://'' @ fst dc @ ''.indeed.com'';
          walked = pageLoop lib world input baseURL \<lparr>allJobs = [], page = 1, cursor = []\<rparr> isc
      in case fst walked of
           Inl err \<Rightarrow> (Returns (Inl err), snd walked)
         | Inr w \<Rightarrow> (applyOffsetLimit input (allJobs w), snd walked))"

section \<open>The orchestrator\<close>

text \<open>
  The \<open>Scraper\<close> interface. A value of it points to an adapter: \<open>receiver\<close> is the state of
  the adapter when \<open>ScrapeJobs\<close> has built it, and the two methods get the state; \<open>Scrape\<close>
  also returns the state as the call leaves it. The Indeed adapter is the one
  implementation in the source.
\<close>

record 'a Scraper =
  receiver :: 'a
  GetSite :: "'a \<Rightarrow> Site"
  Scrape :: "ScraperInput \<Rightarrow> 'a \<Rightarrow> (error + JobResponse) outcome \<times> 'a"

definition IndeedAdapter :: "stdlib \<Rightarrow> (int \<Rightarrow> network) \<Rightarrow> IndeedScraper \<Rightarrow> IndeedScraper Scraper" where
  "IndeedAdapter lib world isc =
     \<lparr>receiver = isc, GetSite = bs_site,
      Scrape = (\<lambda>input isc. IndeedScraper_Scrape lib world input isc)\<rparr>"

text \<open>
  \<open>SiteName\<close> has the type \<open>interface{}\<close>: the dynamic types that \<open>parseSites\<close> tells apart.
\<close>

datatype site_names =
    NilSiteName
  | StringSiteName string
  | StringsSiteName "string list"
  | SiteSiteName Site
  | SitesSiteName "Site list"
  | OtherSiteName

text \<open>
  \<open>ScrapeJobsInput\<close>, with the fields that \<open>ScrapeJobs\<close> passes to the Indeed adapter or
  reads itself (the fields for other sites are only stored in \<open>ScraperInput\<close>).
\<close>

record ScrapeJobsInput =
  SiteName :: site_names
  SearchTerm_sj :: "string option"
  Location_sj :: "string option"
  Distance_sj :: "int option"
  IsRemote_sj :: bool
  ResultsWanted_sj :: "int option"
  CountryIndeed :: string
  Proxies :: "string list"
  DescriptionFormat_sj :: "string option"
  Offset_sj :: "int option"
  Verbose :: int
  UserAgent :: "string option"

text \<open>\<open>parseSites\<close>; the loop over a slice of names stops at the first unknown one.\<close>

fun mapSites :: "string list \<Rightarrow> Site list \<Rightarrow> error + Site list" where
  "mapSites [] sites = Inr sites"
| "mapSites (s # v) sites =
     (case MapStringToSite s of
        Inl err \<Rightarrow> Inl err
      | Inr site \<Rightarrow> mapSites v (sites @ [site]))"

definition parseSites :: "site_names \<Rightarrow> error + Site list" where
  "parseSites siteNames =
     (case siteNames of
        NilSiteName \<Rightarrow> Inr [SiteIndeed, SiteLinkedIn, SiteGlassdoor, SiteGoogle]
      | StringSiteName v \<Rightarrow>
          (case MapStringToSite v of Inl err \<Rightarrow> Inl err | Inr site \<Rightarrow> Inr [site])
      | StringsSiteName v \<Rightarrow> mapSites v []
      | SiteSiteName v \<Rightarrow> Inr [v]
      | SitesSiteName v \<Rightarrow> Inr v
      | OtherSiteName \<Rightarrow> Inl ErrUnsupportedSiteNameType)"

text \<open>
  The records that the goroutine of \<open>ScrapeJobs\<close> itself hands to the logger: the warning for
  a site without a scraper and, after the join, one error record for each error received.
  (The records that the adapters' goroutines write are not modelled.)
\<close>

datatype log_record = WarnNotImplemented Site | ErrorScrapingError error

definition levelOf :: "log_record \<Rightarrow> int" where
  "levelOf r = (case r of WarnNotImplemented _ \<Rightarrow> LevelWarn | ErrorScrapingError _ \<Rightarrow> LevelError)"

text \<open>
  What a call of \<open>ScrapeJobs\<close> comes to.
  \<^item> It returns, a response or an error, and its goroutine has handed the records to the
    logger.
  \<^item> The goroutine of an adapter panics, which ends the process.
  \<^item> It starts two goroutines on one adapter, because a site that has a scraper is named
    twice: the map of scrapers holds one adapter for a site. The two goroutines then read
    and write the adapter's \<open>seenURLs\<close>, HTTP client and rotator at the same time, without
    any synchronisation. The Go memory model does not determine what a run with such a data
    race does (the run-time system may end it with \<^verbatim>\<open>concurrent map writes\<close>), and the
    model gives it no result.
\<close>

datatype run = Returned "error + JobResponse" "log_record list" | Panicked | Raced

text \<open>
  The sites of the list that have a scraper, in the order of the list: one goroutine is
  started for each. The outcome of a goroutine is what \<open>Scrape\<close> returns when it is called
  once on the adapter as \<open>ScrapeJobs\<close> built it.
\<close>

definition launchedSites :: "(Site \<rightharpoonup> 'a Scraper) \<Rightarrow> Site list \<Rightarrow> Site list" where
  "launchedSites scrapers sites = filter (\<lambda>site. scrapers site \<noteq> None) sites"

definition outcomes ::
  "(Site \<rightharpoonup> 'a Scraper) \<Rightarrow> Site list \<Rightarrow> ScraperInput \<Rightarrow> (error + JobResponse) outcome list" where
  "outcomes scrapers sites inp =
     map (\<lambda>s. fst (Scrape s inp (receiver s))) (List.map_filter scrapers sites)"

text \<open>
  The second half of \<open>ScrapeJobs\<close>, from the loop that starts one goroutine for each site to
  the return, as a function of the map \<open>scrapers\<close>. The goroutines run concurrently, each on
  the adapter of its site; \<open>completion\<close> is the order in which they finish, as their
  positions among the goroutines started, and each sends its result or its error to a
  channel when it finishes. After the join the results are collected in the order in which
  they were sent, then the errors are logged. The state in which a call of \<open>Scrape\<close> leaves
  its adapter is not used again: the map is local to \<open>ScrapeJobs\<close>.
\<close>

definition scrapeSites ::
  "(Site \<rightharpoonup> 'a Scraper) \<Rightarrow> Site list \<Rightarrow> ScraperInput \<Rightarrow> nat list \<Rightarrow> run" where
  "scrapeSites scrapers sites scraperInput completion =
     (let launched = List.map_filter scrapers sites;
          warnings = map WarnNotImplemented (filter (\<lambda>site. scrapers site = None) sites)
      in if \<not> distinct (launchedSites scrapers sites) then Raced
         else (let outs = map (\<lambda>s. fst (Scrape s scraperInput (receiver s))) launched
               in if Panics \<in> set outs then Panicked
                  else (let finished = map (\<lambda>i. outs ! i) completion;
                            resultsChan = List.map_filter
                              (\<lambda>out. case out of Returns (Inr result) \<Rightarrow> Some result | _ \<Rightarrow> None)
                              finished;
                            errorsChan = List.map_filter
                              (\<lambda>out. case out of Returns (Inl err) \<Rightarrow> Some err | _ \<Rightarrow> None)
                              finished;
                            collected = concat (map Jobs resultsChan)
                        in Returned (Inr \<lparr>Jobs = collected\<rparr>)
                             (warnings @ map ErrorScrapingError errorsChan))))"

text \<open>A completion order is an order of all the goroutines started.\<close>

definition completionOf :: "(Site \<rightharpoonup> 'a Scraper) \<Rightarrow> Site list \<Rightarrow> nat list \<Rightarrow> bool" where
  "completionOf scrapers sites completion =
     (mset completion = mset [0 ..< length (List.map_filter scrapers sites)])"

text \<open>
  \<open>ScrapeJobs\<close>. The map of scrapers is built anew in every call and holds the Indeed adapter
  only. The log keeps the records that pass the level set from \<open>Verbose\<close>. \<open>getValue\<close> of a
  nil string pointer is the empty string.
\<close>

definition getValue :: "string option \<Rightarrow> string" where
  "getValue ptr = (case ptr of None \<Rightarrow> [] | Some v \<Rightarrow> v)"

definition registry ::
  "stdlib \<Rightarrow> (int \<Rightarrow> network) \<Rightarrow> ScrapeJobsInput \<Rightarrow> (Site \<rightharpoonup> IndeedScraper Scraper)" where
  "registry lib world input =
     [SiteIndeed \<mapsto> IndeedAdapter lib world
        (NewIndeedScraper (Proxies input) (getValue (UserAgent input)))]"

definition newScraperInput :: "ScrapeJobsInput \<Rightarrow> Site list \<Rightarrow> ScraperInput" where
  "newScraperInput input sites =
     \<lparr>SiteType = sites,
      SearchTerm = SearchTerm_sj input,
      Location_si = Location_sj input,
      Country_si = CountryFromString (CountryIndeed input),
      Distance = Distance_sj input,
      IsRemote_si = IsRemote_sj input,
      Offset = (case Offset_sj input of None \<Rightarrow> 0 | Some n \<Rightarrow> n),
      DescriptionFormat =
        (case DescriptionFormat_sj input of
           None \<Rightarrow> None
         | Some f \<Rightarrow>
             if f = ''markdown'' then Some FormatMarkdown
             else if f = ''html'' then Some FormatHTML
             else if f = ''plain'' then Some FormatPlain
             else None),
      ResultsWanted = (case ResultsWanted_sj input of None \<Rightarrow> 15 | Some n \<Rightarrow> n)\<rparr>"

definition ScrapeJobs ::
  "stdlib \<Rightarrow> (int \<Rightarrow> network) \<Rightarrow> ScrapeJobsInput \<Rightarrow> nat list \<Rightarrow> run" where
  "ScrapeJobs lib world input completion =
     (case parseSites (SiteName input) of
        Inl err \<Rightarrow> Returned (Inl (ErrParsingSites err)) []
      | Inr sites \<Rightarrow>
          (case scrapeSites (registry lib world input) sites (newScraperInput input sites)
                  completion of
             Returned response records \<Rightarrow>
               Returned response (filter (\<lambda>r. SetLogLevel (Verbose input) \<le> levelOf r) records)
           | Panicked \<Rightarrow> Panicked
           | Raced \<Rightarrow> Raced))"

text \<open>
  Names for the statements about the orchestrator: the postings and the error of one
  goroutine's outcome, the postings of the adapter of a site, and the outcome of the Indeed
  adapter of \<open>ScrapeJobs\<close>.
\<close>

definition postingsOf :: "(error + JobResponse) outcome \<Rightarrow> JobPost list" where
  "postingsOf out = (case out of Returns (Inr result) \<Rightarrow> Jobs result | _ \<Rightarrow> [])"

definition errorsOf :: "(error + JobResponse) outcome \<Rightarrow> error list" where
  "errorsOf out = (case out of Returns (Inl err) \<Rightarrow> [err] | _ \<Rightarrow> [])"

definition adapterPostings :: "(Site \<rightharpoonup> 'a Scraper) \<Rightarrow> ScraperInput \<Rightarrow> Site \<Rightarrow> JobPost list" where
  "adapterPostings scrapers inp site =
     (case scrapers site of
        None \<Rightarrow> []
      | Some s \<Rightarrow> postingsOf (fst (Scrape s inp (receiver s))))"

definition indeedOutcome ::
  "stdlib \<Rightarrow> (int \<Rightarrow> network) \<Rightarrow> ScrapeJobsInput \<Rightarrow> Site list \<Rightarrow> (error + JobResponse) outcome" where
  "indeedOutcome lib world input sites =
     fst (IndeedScraper_Scrape lib world (newScraperInput input sites)
            (NewIndeedScraper (Proxies input) (getValue (UserAgent input))))"

section \<open>Two concurrent calls of Next\<close>




section \<open>An instance for the examples\<close>

text \<open>
  The examples below run the model on concrete inputs. \<open>decimalParseFloat\<close> is
  \<open>strconv.ParseFloat\<close> on the decimal strings that \<open>parseSalary\<close> passes (digits, then
  optionally a dot and digits), with the exact decimal value; it is used where that value
  is a \<open>float64\<close>. The other library functions are given by their values at the arguments
  that the examples pass.
\<close>

definition digitValue :: "char \<Rightarrow> nat" where
  "digitValue c = (of_char c :: nat) - 48"

definition decimalNat :: "string \<Rightarrow> nat" where
  "decimalNat ds = foldl (\<lambda>n d. 10 * n + digitValue d) 0 ds"

definition decimalParseFloat :: "string \<Rightarrow> rat option" where
  "decimalParseFloat s =
     (let ip = takeWhile isDigit s; r = dropWhile isDigit s
      in case r of
           [] \<Rightarrow> if ip = [] then None else Some (of_nat (decimalNat ip))
         | p # fp \<Rightarrow>
             if p = CHR ''.'' \<and> list_all isDigit fp \<and> (ip \<noteq> [] \<or> fp \<noteq> [])
             then Some (of_nat (decimalNat ip) + of_nat (decimalNat fp) / 10 ^ length fp)
             else None)"

definition exampleLib :: stdlib where
  "exampleLib =
     \<lparr>ParseFloat = decimalParseFloat,
      FindAllEmails = (\<lambda>txt. None),
      ConvertString = Inr,
      DocumentText = Inr,
      QueryStart = (\<lambda>href. if href = ''/jobs?q=go&start=10'' then Some ''10'' else None),
      ParsesAsURL = (\<lambda>s. True)\<rparr>"

definition exampleCard :: "string \<Rightarrow> string \<Rightarrow> card" where
  "exampleCard jk title =
     \<lparr>card_jk = Some jk, card_titleSpan = None, card_titleAnchor = title,
      card_company = [], card_jobLocation = None, card_companyLocation = [],
      card_salary = None, card_summary = []\<rparr>"

definition exampleWorld :: "int \<Rightarrow> network" where
  "exampleWorld p proxy ua req =
     (if p = 1
      then Inr \<lparr>StatusCode = 200,
                Body = Inr \<lparr>cards = [exampleCard ''a1'' ''Dev'',
                                      exampleCard ''a1'' ''Dev'',
                                      exampleCard ''b2'' ''SRE''],
                            nextLink = NextLinkHref ''/jobs?q=go&start=10''\<rparr>\<rparr>
      else if p = 2
      then Inr \<lparr>StatusCode = 200,
                Body = Inr \<lparr>cards = [exampleCard ''b2'' ''SRE'', exampleCard ''c3'' ''QA''],
                            nextLink = NoNextLink\<rparr>\<rparr>
      else Inl ''timeout'')"

definition exampleInput :: ScraperInput where
  "exampleInput =
     \<lparr>SiteType = [SiteIndeed], SearchTerm = Some ''go'', Location_si = None,
      Country_si = Some CountryUSA, Distance = None, IsRemote_si = False, Offset = 0,
      DescriptionFormat = None, ResultsWanted = 15\<rparr>"

text \<open>A network that is down, and one that answers every request with a page without cards.\<close>

definition downWorld :: "int \<Rightarrow> network" where
  "downWorld p proxy ua req = Inl ''connection refused''"

definition emptyWorld :: "int \<Rightarrow> network" where
  "emptyWorld p proxy ua req =
     Inr \<lparr>StatusCode = 200, Body = Inr \<lparr>cards = [], nextLink = NoNextLink\<rparr>\<rparr>"

text \<open>A network that serves the same page, with a link to a next page, whatever is asked.\<close>

definition repeatingWorld :: "int \<Rightarrow> network" where
  "repeatingWorld p proxy ua req =
     Inr \<lparr>StatusCode = 200,
          Body = Inr \<lparr>cards = [exampleCard ''a1'' ''Dev'', exampleCard ''b2'' ''SRE''],
                      nextLink = NextLinkHref ''/jobs?q=go&start=10''\<rparr>\<rparr>"

text \<open>The predicate of the lemmas on deduplication: the card is discarded or its URL is seen.\<close>

definition fed :: "stdlib \<Rightarrow> string \<Rightarrow> ScraperInput \<Rightarrow> IndeedScraper \<Rightarrow> card \<Rightarrow> bool" where
  "fed lib baseURL input isc s =
     (case parseJobCard lib s baseURL input of
        None \<Rightarrow> True
      | Some job \<Rightarrow> mapIndex (seenURLs isc) (JobURL job))"

text \<open>
  The posting that \<open>parseJobCard\<close> makes of an example card, a network on which the first
  page is served and every later request fails, and a map of scrapers in which Indeed
  scrapers also serve two more sites, each over a network of its own.
\<close>

definition examplePosting :: "string \<Rightarrow> string \<Rightarrow> string \<Rightarrow> JobPost" where
  "examplePosting baseURL jk title =
     \<lparr>ID = Some jk, Title = title, CompanyName = Some [],
      JobURL = baseURL @ ''/viewjob?jk='' @ jk, Location = None,
      Description = Some [], JobType = None, Compensation = None, Emails = None,
      IsRemote = Some False\<rparr>"

definition brokenWorld :: "int \<Rightarrow> network" where
  "brokenWorld p proxy ua req =
     (if p = 1
      then Inr \<lparr>StatusCode = 200,
                Body = Inr \<lparr>cards = [exampleCard ''a1'' ''Dev'', exampleCard ''b2'' ''SRE''],
                            nextLink = NextLinkHref ''/jobs?q=go&start=10''\<rparr>\<rparr>
      else Inl ''timeout'')"

definition exampleRegistry :: "Site \<rightharpoonup> IndeedScraper Scraper" where
  "exampleRegistry =
     [SiteIndeed \<mapsto> IndeedAdapter exampleLib exampleWorld (NewIndeedScraper [] []),
      SiteLinkedIn \<mapsto> IndeedAdapter exampleLib downWorld (NewIndeedScraper [] []),
      SiteGoogle \<mapsto> IndeedAdapter exampleLib repeatingWorld (NewIndeedScraper [] [])]"

definition exampleJobsInput :: ScrapeJobsInput where
  "exampleJobsInput =
     \<lparr>SiteName = StringsSiteName [''indeed'', ''linkedin''],
      SearchTerm_sj = Some ''go'', Location_sj = None, Distance_sj = None,
      IsRemote_sj = False, ResultsWanted_sj = Some 15, CountryIndeed = ''usa'',
      Proxies = [], DescriptionFormat_sj = None, Offset_sj = None, Verbose = 1,
      UserAgent = None\<rparr>"

text \<open>
  Names for two parts of \<open>parseSalary\<close>, for the statements about it: the amounts parsed from
  the matches, and the interval inferred from the text.
\<close>

definition salaryAmounts :: "stdlib \<Rightarrow> string \<Rightarrow> rat list" where
  "salaryAmounts lib s =
     List.map_filter (\<lambda>m. ParseFloat lib (filter (\<lambda>c. c \<noteq> CHR '','') m)) (salaryMatches s)"

definition salaryInterval :: "string \<Rightarrow> CompensationInterval option" where
  "salaryInterval s =
     (let salaryLower = strings_ToLower s
      in if strings_Contains salaryLower ''year'' \<or> strings_Contains salaryLower ''annual''
         then Some IntervalYearly
         else if strings_Contains salaryLower ''hour'' then Some IntervalHourly
         else if strings_Contains salaryLower ''month'' then Some IntervalMonthly
         else None)"


section \<open>Evaluation\<close>

lemmas char_eval = isDigit_def isLetter_def isAmountChar_def digitChars_def lowerLetters_def
  upperLetters_def toLowerRune_def toUpperRune_def isSpace_def isRegexSpace_def

lemmas example_eval = exampleLib_def exampleCard_def exampleWorld_def exampleInput_def
  decimalParseFloat_def decimalNat_def digitValue_def

lemmas card_eval = parseJobCard_def parseLocation_def strings_TrimSpace_def strings_ToLower_def
  isJobRemote_def ExtractEmailsFromText_def extractJobType_def Let_def

lemmas walk_eval = pageStep_def scrapePage_def HTTPClient_Get_def eachCard_def mapIndex_def
  NewIndeedScraper_def NewHTTPClient_def target_def wrap64_def

lemmas site_eval = SiteIndeed_def SiteLinkedIn_def SiteGoogle_def SiteGlassdoor_def
  SiteZipRecruiter_def SiteBayt_def SiteNaukri_def SiteBDJobs_def

lemmas orchestrator_eval = parseSites_def MapStringToSite_def strings_ToLower_def
  newScraperInput_def CountryFromString_def registry_def IndeedAdapter_def getValue_def
  IndeedScraper_Scrape_def getCountryDomain_def applyOffsetLimit_def goSlice_def
  scrapeSites_def launchedSites_def indeedOutcome_def List.map_filter_def exampleJobsInput_def
  downWorld_def emptyWorld_def
  SetLogLevel_def levelOf_def LevelError_def LevelWarn_def LevelInfo_def
  CountryUSA_def CountryCanada_def CountryUK_def CountryGermany_def CountryFrance_def

section \<open>Location rendering\<close>

lemma toUpperRune_letters [simp]:
  "map toUpperRune lowerLetters = upperLetters"
  by (simp add: toUpperRune_def lowerLetters_def upperLetters_def)

lemma strings_ToUpper_usa: "strings_ToUpper ''usa'' = ''USA''"
  by (simp add: strings_ToUpper_def toUpperRune_def lowerLetters_def upperLetters_def)

lemma strings_Title_usa: "strings_Title ''usa'' = ''Usa''"
  by (simp add: strings_Title_def toUpperRune_def isSeparator_def isDigit_def isLetter_def
      lowerLetters_def upperLetters_def digitChars_def)

text \<open>
  C6, as the code has it. \<open>Location.String\<close> joins the present parts, city then state then
  country, with a comma and a space. The country token is upper-cased exactly when it is
  \<open>usa\<close> or \<open>uk\<close> and title-cased otherwise. The three examples of the specification render
  as stated, and an absent location renders as the empty string.
\<close>

theorem Location_String_rendering:
  "Location_String l =
     strings_Join
       (List.map_filter id
          [City l, State l,
           map_option (\<lambda>c. if c = CountryUSA \<or> c = CountryUK then strings_ToUpper c
                            else strings_Title c) (Country l)])
       '', ''
   \<and> locationString (Some \<lparr>City = Some ''Boston'', State = None, Country = None\<rparr>) = ''Boston''
   \<and> locationString (Some \<lparr>City = Some ''New York'', State = Some ''NY'', Country = None\<rparr>)
       = ''New York, NY''
   \<and> locationString
        (Some \<lparr>City = Some ''San Francisco'', State = Some ''CA'', Country = Some CountryUSA\<rparr>)
       = ''San Francisco, CA, USA''
   \<and> locationString None = ''''"
proof -
  have general: "Location_String l =
     strings_Join
       (List.map_filter id
          [City l, State l,
           map_option (\<lambda>c. if c = CountryUSA \<or> c = CountryUK then strings_ToUpper c
                            else strings_Title c) (Country l)])
       '', ''"
    by (cases "City l"; cases "State l"; cases "Country l")
      (simp_all add: Location_String_def List.map_filter_def CountryUSA_def CountryUK_def)
  have boston: "locationString (Some \<lparr>City = Some ''Boston'', State = None, Country = None\<rparr>)
      = ''Boston''"
    by (simp add: locationString_def Location_String_def)
  have ny: "locationString (Some \<lparr>City = Some ''New York'', State = Some ''NY'', Country = None\<rparr>)
      = ''New York, NY''"
    by (simp add: locationString_def Location_String_def)
  have sf: "locationString
        (Some \<lparr>City = Some ''San Francisco'', State = Some ''CA'', Country = Some CountryUSA\<rparr>)
       = ''San Francisco, CA, USA''"
    by (simp add: locationString_def Location_String_def CountryUSA_def strings_ToUpper_usa)
  have absent: "locationString None = ''''"
    by (simp add: locationString_def)
  from general boston ny sf absent show ?thesis
    by blast
qed

text \<open>
  The rule as the specification words it (upper case for a two-letter code, title case
  otherwise) is not the code's: \<open>usa\<close> has three letters, the code renders it \<open>USA\<close> and the
  worded rule renders it \<open>Usa\<close>.
\<close>

theorem Location_String_two_letter_counterexample:
  "Location_String \<lparr>City = Some ''San Francisco'', State = Some ''CA'', Country = Some CountryUSA\<rparr>
     = ''San Francisco, CA, USA''
   \<and> spec_Location_String
       \<lparr>City = Some ''San Francisco'', State = Some ''CA'', Country = Some CountryUSA\<rparr>
     = ''San Francisco, CA, Usa''"
  by (simp add: Location_String_def spec_Location_String_def spec_countryToken_def
      List.map_filter_def CountryUSA_def strings_ToUpper_usa strings_Title_usa)

section \<open>Absent and empty\<close>

lemma goAppend_nonempty: "goAppend js x \<noteq> Some []" "goAppend js x \<noteq> None"
  by (cases js; simp)+

lemma extractJobType_nonempty: "extractJobType description \<noteq> Some []"
  by (simp add: extractJobType_def Let_def goAppend_nonempty)

lemma extractJobType_no_marker:
  assumes "\<not> strings_Contains (strings_ToLower description) ''full-time''"
    "\<not> strings_Contains (strings_ToLower description) ''fulltime''"
    "\<not> strings_Contains (strings_ToLower description) ''part-time''"
    "\<not> strings_Contains (strings_ToLower description) ''parttime''"
    "\<not> strings_Contains (strings_ToLower description) ''contract''"
    "\<not> strings_Contains (strings_ToLower description) ''intern''"
    "\<not> strings_Contains (strings_ToLower description) ''temporary''"
  shows "extractJobType description = None"
  using assms by (simp add: extractJobType_def Let_def)

lemma ExtractEmails_nonempty: "ExtractEmailsFromText lib txt \<noteq> Some []"
  by (auto simp: ExtractEmailsFromText_def Let_def split: option.splits)

lemma ExtractEmails_no_match:
  "FindAllEmails lib txt = None \<or> FindAllEmails lib txt = Some [] \<Longrightarrow> ExtractEmailsFromText lib txt = None"
  by (auto simp: ExtractEmailsFromText_def Let_def split: option.splits)

lemma parseJobCard_fields:
  assumes "parseJobCard lib s baseURL input = Some job"
  shows "\<exists>d. Emails job = ExtractEmailsFromText lib d \<and> JobType job = extractJobType d"
  using assms
  by (auto simp: parseJobCard_def Let_def split: option.splits if_splits)

text \<open>
  C8. The e-mail list and the employment-type list of a posting are never a slice that is
  empty and not nil. \<open>ExtractEmailsFromText\<close> returns nil when the pattern has no match, and
  \<open>extractJobType\<close> returns nil when the description has none of the markers; both fields of
  every posting that \<open>parseJobCard\<close> emits are results of these two functions.
\<close>

theorem emails_and_job_types_absent_when_empty:
  "ExtractEmailsFromText lib txt \<noteq> Some []
   \<and> extractJobType description \<noteq> Some []
   \<and> (FindAllEmails lib txt = None \<or> FindAllEmails lib txt = Some []
        \<longrightarrow> ExtractEmailsFromText lib txt = None)
   \<and> (\<not> strings_Contains (strings_ToLower description) ''full-time''
        \<and> \<not> strings_Contains (strings_ToLower description) ''fulltime''
        \<and> \<not> strings_Contains (strings_ToLower description) ''part-time''
        \<and> \<not> strings_Contains (strings_ToLower description) ''parttime''
        \<and> \<not> strings_Contains (strings_ToLower description) ''contract''
        \<and> \<not> strings_Contains (strings_ToLower description) ''intern''
        \<and> \<not> strings_Contains (strings_ToLower description) ''temporary''
        \<longrightarrow> extractJobType description = None)
   \<and> (parseJobCard lib s baseURL input = Some job
        \<longrightarrow> Emails job \<noteq> Some [] \<and> JobType job \<noteq> Some [])"
proof -
  have posting: "Emails job \<noteq> Some [] \<and> JobType job \<noteq> Some []"
    if "parseJobCard lib s baseURL input = Some job"
    using parseJobCard_fields[OF that] ExtractEmails_nonempty extractJobType_nonempty
    by metis
  show ?thesis
    using ExtractEmails_nonempty extractJobType_nonempty ExtractEmails_no_match
      extractJobType_no_marker posting
    by blast
qed

theorem emails_and_job_types_absent_when_empty_witness:
  "ExtractEmailsFromText exampleLib ''No emails here'' = None
   \<and> extractJobType ''We sell shoes'' = None
   \<and> Emails (the (parseJobCard exampleLib (exampleCard ''a1'' ''Dev'') ''u'' exampleInput))
       \<noteq> Some []
   \<and> JobType (the (parseJobCard exampleLib (exampleCard ''a1'' ''Dev'') ''u'' exampleInput))
       \<noteq> Some []"
proof -
  have no_match: "FindAllEmails exampleLib ''No emails here'' = None"
    by (simp add: exampleLib_def)
  have no_marker:
    "\<not> strings_Contains (strings_ToLower ''We sell shoes'') ''full-time''
     \<and> \<not> strings_Contains (strings_ToLower ''We sell shoes'') ''fulltime''
     \<and> \<not> strings_Contains (strings_ToLower ''We sell shoes'') ''part-time''
     \<and> \<not> strings_Contains (strings_ToLower ''We sell shoes'') ''parttime''
     \<and> \<not> strings_Contains (strings_ToLower ''We sell shoes'') ''contract''
     \<and> \<not> strings_Contains (strings_ToLower ''We sell shoes'') ''intern''
     \<and> \<not> strings_Contains (strings_ToLower ''We sell shoes'') ''temporary''"
    by (simp add: strings_ToLower_def char_eval)
  have emitted: "parseJobCard exampleLib (exampleCard ''a1'' ''Dev'') ''u'' exampleInput
      = Some (the (parseJobCard exampleLib (exampleCard ''a1'' ''Dev'') ''u'' exampleInput))"
    by (simp add: card_eval example_eval char_eval)
  show ?thesis
    using emails_and_job_types_absent_when_empty
      [of exampleLib "''No emails here''" "''We sell shoes''" "exampleCard ''a1'' ''Dev''"
        "''u''" exampleInput
        "the (parseJobCard exampleLib (exampleCard ''a1'' ''Dev'') ''u'' exampleInput)"]
      no_match no_marker emitted
    by blast
qed

section \<open>Deduplication\<close>

lemma eachCard_seen:
  "parseJobCard lib s baseURL input = Some job \<Longrightarrow> mapIndex (seenURLs isc) (JobURL job)
   \<Longrightarrow> eachCard lib baseURL input (jobs, isc) s = (jobs, isc)"
  by (simp add: eachCard_def Let_def)

lemma eachCard_fed: "fed lib baseURL input (snd acc) s \<Longrightarrow> eachCard lib baseURL input acc s = acc"
  by (auto simp: fed_def eachCard_def Let_def split: option.splits)

lemma foldl_eachCard_fed:
  "\<forall>s \<in> set cs. fed lib baseURL input (snd acc) s \<Longrightarrow> foldl (eachCard lib baseURL input) acc cs = acc"
  by (induction cs arbitrary: acc) (simp_all add: eachCard_fed)

lemma eachCard_mono:
  "mapIndex (seenURLs (snd acc)) u \<Longrightarrow> mapIndex (seenURLs (snd (eachCard lib baseURL input acc s))) u"
  by (auto simp: eachCard_def Let_def mapIndex_def split: option.splits)

lemma eachCard_marks: "fed lib baseURL input (snd (eachCard lib baseURL input acc s)) s"
  by (auto simp: fed_def eachCard_def Let_def mapIndex_def split: option.splits)

lemma fed_mono: "fed lib baseURL input (snd acc) s \<Longrightarrow> fed lib baseURL input (snd (eachCard lib baseURL input acc s')) s"
  unfolding fed_def using eachCard_mono by (auto split: option.splits)

lemma foldl_eachCard_mono:
  "fed lib baseURL input (snd acc) s \<Longrightarrow> fed lib baseURL input (snd (foldl (eachCard lib baseURL input) acc cs)) s"
  by (induction cs arbitrary: acc) (simp_all add: fed_mono)

lemma foldl_eachCard_marks:
  "s \<in> set cs \<Longrightarrow> fed lib baseURL input (snd (foldl (eachCard lib baseURL input) acc cs)) s"
proof (induction cs arbitrary: acc)
  case Nil then show ?case by simp
next
  case (Cons c cs)
  show ?case
  proof (cases "s = c")
    case True
    then show ?thesis using foldl_eachCard_mono[OF eachCard_marks] by simp
  next
    case False
    with Cons show ?thesis by simp
  qed
qed

lemma fed_httpClient [simp]:
  "fed lib baseURL input (isc\<lparr>bs_httpClient := hc\<rparr>) s = fed lib baseURL input isc s"
  by (simp add: fed_def split: option.splits)

lemma HTTPClient_Get_answer:
  "fst (HTTPClient_Get lib net hc req)
     = net (transportProxy (snd (HTTPClient_Get lib net hc req)))
         (userAgent (snd (HTTPClient_Get lib net hc req))) req"
  by (simp add: HTTPClient_Get_def Let_def split: option.splits prod.splits)

lemma scrapePage_Inr:
  assumes "scrapePage lib net input c baseURL isc = (Inr (jobs, nc), isc1)"
  shows "\<exists>hc proxy ua req resp doc. net proxy ua req = Inr resp \<and> Body resp = Inr doc
     \<and> foldl (eachCard lib baseURL input) ([], isc\<lparr>bs_httpClient := hc\<rparr>) (cards doc) = (jobs, isc1)"
proof -
  define req where "req = \<lparr>req_base = baseURL,
      req_params = \<lparr>param_q = SearchTerm input, param_l = Location_si input,
                param_radius = Distance input, param_remotejob = IsRemote_si input,
                param_start = (if c \<noteq> [] then Some c else None)\<rparr>\<rparr>"
  define got where "got = HTTPClient_Get lib net (bs_httpClient isc) req"
  define isc0 where "isc0 = isc\<lparr>bs_httpClient := snd got\<rparr>"
  have unfolded: "scrapePage lib net input c baseURL isc =
      (case fst got of
           Inl err \<Rightarrow> (Inl (ErrMakingRequest err), isc0)
         | Inr resp \<Rightarrow>
             if StatusCode resp \<noteq> 200 then (Inl (ErrUnexpectedStatus (StatusCode resp)), isc0)
             else (case Body resp of
                     Inl err \<Rightarrow> (Inl (ErrParsingHTML err), isc0)
                   | Inr doc \<Rightarrow>
                       (Inr (fst (foldl (eachCard lib baseURL input) ([], isc0) (cards doc)),
                             (case nextLink doc of
                                 NoNextLink \<Rightarrow> []
                               | NextLinkWithoutHref \<Rightarrow> []
                               | NextLinkHref href \<Rightarrow>
                                   (case QueryStart lib href of None \<Rightarrow> [] | Some v \<Rightarrow> v))),
                        snd (foldl (eachCard lib baseURL input) ([], isc0) (cards doc)))))"
    unfolding scrapePage_def Let_def isc0_def got_def req_def by (rule refl)
  from assms unfolded obtain resp doc where
    r: "fst got = Inr resp" "Body resp = Inr doc"
    "foldl (eachCard lib baseURL input) ([], isc0) (cards doc) = (jobs, isc1)"
    by (auto split: sum.splits if_splits simp: prod_eq_iff)
  have "fst got = net (transportProxy (snd got)) (userAgent (snd got)) req"
    unfolding got_def by (rule HTTPClient_Get_answer)
  with r show ?thesis unfolding isc0_def by metis
qed

lemma scrapePage_same_page_again:
  assumes first: "scrapePage lib net input c baseURL isc = (Inr (jobs1, nc), isc1)"
    and page: "\<forall>proxy ua req resp doc. net proxy ua req = Inr resp \<longrightarrow> Body resp = Inr doc
            \<longrightarrow> cards doc = cs"
    and page': "\<forall>proxy ua req resp doc. net' proxy ua req = Inr resp \<longrightarrow> Body resp = Inr doc
            \<longrightarrow> cards doc = cs"
    and again: "scrapePage lib net' input c' baseURL isc1 = (Inr (jobs2, nc'), isc2)"
  shows "jobs2 = []"
proof -
  from scrapePage_Inr[OF first] obtain hc proxy ua req resp doc where
    d: "net proxy ua req = Inr resp" "Body resp = Inr doc"
    "foldl (eachCard lib baseURL input) ([], isc\<lparr>bs_httpClient := hc\<rparr>) (cards doc) = (jobs1, isc1)"
    by blast
  from page d have "cards doc = cs" by blast
  with d(3) have all_fed: "\<forall>s \<in> set cs. fed lib baseURL input isc1 s"
    using foldl_eachCard_marks[of _ cs lib baseURL input "([], isc\<lparr>bs_httpClient := hc\<rparr>)"]
    by simp
  from scrapePage_Inr[OF again] obtain hc' proxy' ua' req' resp' doc' where
    d': "net' proxy' ua' req' = Inr resp'" "Body resp' = Inr doc'"
    "foldl (eachCard lib baseURL input) ([], isc1\<lparr>bs_httpClient := hc'\<rparr>) (cards doc')
       = (jobs2, isc2)"
    by blast
  from page' d' have "cards doc' = cs" by blast
  with all_fed
  have "\<forall>s \<in> set (cards doc'). fed lib baseURL input (snd ([], isc1\<lparr>bs_httpClient := hc'\<rparr>)) s"
    by simp
  from foldl_eachCard_fed[OF this] d'(3) show ?thesis by simp
qed

text \<open>
  C7. Feeding the cards of one page twice into the filter of \<open>scrapePage\<close> adds nothing the
  second time: the second pass yields no posting and leaves the scraper as it is, so the
  postings accumulated are those of the first pass. A card whose URL is in \<open>seenURLs\<close> is
  dropped and nothing else happens: the accumulator is returned unchanged, and no error
  arises. At the level of \<open>scrapePage\<close>: when a page with the same cards is served again,
  the second call yields no new posting.
\<close>

theorem dedup_idempotent:
  "(foldl (eachCard lib baseURL input) ([], isc) cs = (jobs1, isc1) \<longrightarrow>
      foldl (eachCard lib baseURL input) ([], isc1) cs = ([], isc1)
      \<and> foldl (eachCard lib baseURL input) (jobs1, isc1) cs = (jobs1, isc1))
   \<and> (parseJobCard lib s baseURL input = Some job \<and> mapIndex (seenURLs isc) (JobURL job) \<longrightarrow>
        eachCard lib baseURL input (jobs, isc) s = (jobs, isc))
   \<and> (scrapePage lib net input c baseURL isc = (Inr (jobs1, nc), isc1)
        \<and> (\<forall>proxy ua req resp doc. net proxy ua req = Inr resp \<longrightarrow> Body resp = Inr doc
              \<longrightarrow> cards doc = cs)
        \<and> (\<forall>proxy ua req resp doc. net' proxy ua req = Inr resp \<longrightarrow> Body resp = Inr doc
              \<longrightarrow> cards doc = cs)
        \<and> scrapePage lib net' input c' baseURL isc1 = (Inr (jobs2, nc'), isc2)
        \<longrightarrow> jobs2 = [])"
proof -
  have fold: "foldl (eachCard lib baseURL input) ([], isc1) cs = ([], isc1)
      \<and> foldl (eachCard lib baseURL input) (jobs1, isc1) cs = (jobs1, isc1)"
    if once: "foldl (eachCard lib baseURL input) ([], isc) cs = (jobs1, isc1)"
  proof -
    have "\<forall>s \<in> set cs. fed lib baseURL input isc1 s"
      using foldl_eachCard_marks[of _ cs lib baseURL input "([], isc)"] once by simp
    then show ?thesis
      using foldl_eachCard_fed[of cs lib baseURL input "([], isc1)"]
        foldl_eachCard_fed[of cs lib baseURL input "(jobs1, isc1)"] by simp
  qed
  have again: "jobs2 = []"
    if served: "scrapePage lib net input c baseURL isc = (Inr (jobs1, nc), isc1)
        \<and> (\<forall>proxy ua req resp doc. net proxy ua req = Inr resp \<longrightarrow> Body resp = Inr doc
              \<longrightarrow> cards doc = cs)
        \<and> (\<forall>proxy ua req resp doc. net' proxy ua req = Inr resp \<longrightarrow> Body resp = Inr doc
              \<longrightarrow> cards doc = cs)
        \<and> scrapePage lib net' input c' baseURL isc1 = (Inr (jobs2, nc'), isc2)"
  proof -
    from served have a: "scrapePage lib net input c baseURL isc = (Inr (jobs1, nc), isc1)"
      by (rule conjunct1)
    from served have b: "\<forall>proxy ua req resp doc. net proxy ua req = Inr resp
        \<longrightarrow> Body resp = Inr doc \<longrightarrow> cards doc = cs"
      by (rule conjunct2[THEN conjunct1])
    from served have c: "\<forall>proxy ua req resp doc. net' proxy ua req = Inr resp
        \<longrightarrow> Body resp = Inr doc \<longrightarrow> cards doc = cs"
      by (rule conjunct2[THEN conjunct2, THEN conjunct1])
    from served have d: "scrapePage lib net' input c' baseURL isc1 = (Inr (jobs2, nc'), isc2)"
      by (rule conjunct2[THEN conjunct2, THEN conjunct2])
    show ?thesis by (rule scrapePage_same_page_again[OF a b c d])
  qed
  have seen: "eachCard lib baseURL input (jobs, isc) s = (jobs, isc)"
    if "parseJobCard lib s baseURL input = Some job \<and> mapIndex (seenURLs isc) (JobURL job)"
    using that eachCard_seen by blast
  from fold seen again show ?thesis
    by blast
qed

theorem dedup_idempotent_witness:
  "map JobURL (fst (foldl (eachCard exampleLib ''u'' exampleInput) ([], NewIndeedScraper [] [])
       [exampleCard ''a1'' ''Dev'', exampleCard ''a1'' ''Dev'', exampleCard ''b2'' ''SRE'']))
     = [''u/viewjob?jk=a1'', ''u/viewjob?jk=b2'']
   \<and> foldl (eachCard exampleLib ''u'' exampleInput)
        ([], snd (foldl (eachCard exampleLib ''u'' exampleInput) ([], NewIndeedScraper [] [])
           [exampleCard ''a1'' ''Dev'', exampleCard ''a1'' ''Dev'', exampleCard ''b2'' ''SRE'']))
        [exampleCard ''a1'' ''Dev'', exampleCard ''a1'' ''Dev'', exampleCard ''b2'' ''SRE'']
     = ([], snd (foldl (eachCard exampleLib ''u'' exampleInput) ([], NewIndeedScraper [] [])
           [exampleCard ''a1'' ''Dev'', exampleCard ''a1'' ''Dev'', exampleCard ''b2'' ''SRE'']))"
proof -
  define cs where
    "cs = [exampleCard ''a1'' ''Dev'', exampleCard ''a1'' ''Dev'', exampleCard ''b2'' ''SRE'']"
  define r where
    "r = foldl (eachCard exampleLib ''u'' exampleInput) ([], NewIndeedScraper [] []) cs"
  have once: "foldl (eachCard exampleLib ''u'' exampleInput) ([], NewIndeedScraper [] []) cs
      = (fst r, snd r)"
    by (simp add: r_def)
  have urls: "map JobURL (fst r) = [''u/viewjob?jk=a1'', ''u/viewjob?jk=b2'']"
    unfolding r_def cs_def
    by (simp add: eachCard_def mapIndex_def NewIndeedScraper_def card_eval example_eval char_eval)
  have "foldl (eachCard exampleLib ''u'' exampleInput) ([], snd r) cs = ([], snd r)"
    using dedup_idempotent[of exampleLib "''u''" exampleInput "NewIndeedScraper [] []" cs
        "fst r" "snd r"] once
    by blast
  with urls show ?thesis
    unfolding r_def cs_def by simp
qed

section \<open>The pagination walk\<close>

lemma pageStep_cases:
  "pageStep lib world input baseURL w isc = (st, isc') \<Longrightarrow>
   (case st of
      Failed e \<Rightarrow> (\<exists>e'. e = ErrScrapingPage (page w) e'
                      \<and> scrapePage lib (world (page w)) input (cursor w) baseURL isc = (Inl e', isc'))
    | Break w' \<Rightarrow>
        (w' = w \<and> (\<exists>c. scrapePage lib (world (page w)) input (cursor w) baseURL isc = (Inr ([], c), isc')))
        \<or> (\<exists>jobs. jobs \<noteq> [] \<and> w' = \<lparr>allJobs = allJobs w @ jobs, page = page w + 1, cursor = []\<rparr>
              \<and> scrapePage lib (world (page w)) input (cursor w) baseURL isc = (Inr (jobs, []), isc'))
    | Continue w' \<Rightarrow>
        (\<exists>jobs c. jobs \<noteq> [] \<and> c \<noteq> [] \<and> w' = \<lparr>allJobs = allJobs w @ jobs, page = page w + 1, cursor = c\<rparr>
              \<and> scrapePage lib (world (page w)) input (cursor w) baseURL isc = (Inr (jobs, c), isc')))"
  by (cases "scrapePage lib (world (page w)) input (cursor w) baseURL isc")
     (auto simp: pageStep_def Let_def split: sum.splits if_splits step.splits)

lemma pageLoop_page_bound:
  "pageLoop lib world input baseURL w isc = (Inr w', isc') \<Longrightarrow>
     page w \<le> page w' \<and> page w' \<le> page w + int (nat (target input - int (length (allJobs w))))"
proof (induction lib world input baseURL w isc rule: pageLoop.induct)
  case (1 lib world input baseURL w isc)
  show ?case
  proof (cases "int (length (allJobs w)) < target input")
    case False
    with "1.prems" show ?thesis by simp
  next
    case guard: True
    obtain st isc1 where step: "pageStep lib world input baseURL w isc = (st, isc1)"
      by (cases "pageStep lib world input baseURL w isc")
    show ?thesis
    proof (cases st)
      case (Failed e)
      with "1.prems" guard step show ?thesis by simp
    next
      case (Break wb)
      with "1.prems" guard step have "w' = wb" by simp
      with pageStep_cases[OF step] Break guard show ?thesis by auto
    next
      case (Continue wc)
      with "1.prems" guard step have loop: "pageLoop lib world input baseURL wc isc1 = (Inr w', isc')"
        by simp
      have ih: "page wc \<le> page w' \<and> page w' \<le> page wc + int (nat (target input - int (length (allJobs wc))))"
        using "1.IH"[OF guard step[symmetric] Continue loop] by simp
      from pageStep_cases[OF step] Continue
      have "page wc = page w + 1" "length (allJobs w) < length (allJobs wc)"
        by auto
      with ih guard show ?thesis by (auto split: if_splits)
    qed
  qed
qed

lemma pageLoop_error_page:
  "pageLoop lib world input baseURL w isc = (Inl e, isc') \<Longrightarrow>
     \<exists>p e'. e = ErrScrapingPage p e' \<and> page w \<le> p
        \<and> p < page w + int (nat (target input - int (length (allJobs w))))"
proof (induction lib world input baseURL w isc rule: pageLoop.induct)
  case (1 lib world input baseURL w isc)
  show ?case
  proof (cases "int (length (allJobs w)) < target input")
    case False
    with "1.prems" show ?thesis by simp
  next
    case guard: True
    obtain st isc1 where step: "pageStep lib world input baseURL w isc = (st, isc1)"
      by (cases "pageStep lib world input baseURL w isc")
    show ?thesis
    proof (cases st)
      case (Failed e0)
      with "1.prems" guard step have "e = e0" by simp
      with pageStep_cases[OF step] Failed guard show ?thesis by auto
    next
      case (Break wb)
      with "1.prems" guard step show ?thesis by simp
    next
      case (Continue wc)
      with "1.prems" guard step have loop: "pageLoop lib world input baseURL wc isc1 = (Inl e, isc')"
        by simp
      from "1.IH"[OF guard step[symmetric] Continue loop]
      obtain p e' where ih: "e = ErrScrapingPage p e'" "page wc \<le> p"
        "p < page wc + int (nat (target input - int (length (allJobs wc))))"
        by auto
      from pageStep_cases[OF step] Continue
      have "page wc = page w + 1" "length (allJobs w) < length (allJobs wc)"
        by auto
      with ih guard show ?thesis by (auto split: if_splits)
    qed
  qed
qed

lemma pageLoop_terminal:
  "pageLoop lib world input baseURL w isc = (Inr w', isc') \<Longrightarrow>
     target input \<le> int (length (allJobs w'))
     \<or> cursor w' = []
     \<or> (\<exists>isc0 c. scrapePage lib (world (page w')) input (cursor w') baseURL isc0 = (Inr ([], c), isc'))"
proof (induction lib world input baseURL w isc rule: pageLoop.induct)
  case (1 lib world input baseURL w isc)
  show ?case
  proof (cases "int (length (allJobs w)) < target input")
    case False
    with "1.prems" show ?thesis by simp
  next
    case guard: True
    obtain st isc1 where step: "pageStep lib world input baseURL w isc = (st, isc1)"
      by (cases "pageStep lib world input baseURL w isc")
    show ?thesis
    proof (cases st)
      case (Failed e0)
      with "1.prems" guard step show ?thesis by simp
    next
      case (Break wb)
      with "1.prems" guard step have "w' = wb" "isc' = isc1" by simp_all
      with pageStep_cases[OF step] Break show ?thesis by auto
    next
      case (Continue wc)
      with "1.prems" guard step have loop: "pageLoop lib world input baseURL wc isc1 = (Inr w', isc')"
        by simp
      from "1.IH"[OF guard step[symmetric] Continue loop] show ?thesis .
    qed
  qed
qed

lemma pageLoop_goes_on:
  assumes "int (length (allJobs w)) < target input"
    and "scrapePage lib (world (page w)) input (cursor w) baseURL isc = (Inr (jobs, c), isc1)"
    and "jobs \<noteq> []" and "c \<noteq> []"
  shows "pageLoop lib world input baseURL w isc =
     pageLoop lib world input baseURL \<lparr>allJobs = allJobs w @ jobs, page = page w + 1, cursor = c\<rparr> isc1"
proof -
  have "pageStep lib world input baseURL w isc
      = (Continue \<lparr>allJobs = allJobs w @ jobs, page = page w + 1, cursor = c\<rparr>, isc1)"
    using assms by (simp add: pageStep_def Let_def)
  with assms(1) show ?thesis by simp
qed

lemma pageLoop_world_range:
  assumes "\<forall>p. page w \<le> p \<and> p < page w + int (nat (target input - int (length (allJobs w))))
             \<longrightarrow> world p = world' p"
  shows "pageLoop lib world input baseURL w isc = pageLoop lib world' input baseURL w isc"
  using assms
proof (induction lib world input baseURL w isc rule: pageLoop.induct)
  case (1 lib world input baseURL w isc)
  show ?case
  proof (cases "int (length (allJobs w)) < target input")
    case False
    then show ?thesis by simp
  next
    case guard: True
    then have "world (page w) = world' (page w)"
      using "1.prems" by simp
    then have same: "pageStep lib world' input baseURL w isc = pageStep lib world input baseURL w isc"
      by (simp add: pageStep_def)
    obtain st isc1 where step: "pageStep lib world input baseURL w isc = (st, isc1)"
      by (cases "pageStep lib world input baseURL w isc")
    show ?thesis
    proof (cases st)
      case (Continue wc)
      from pageStep_cases[OF step] Continue
      have wc: "page wc = page w + 1" "length (allJobs w) < length (allJobs wc)"
        by auto
      have "\<forall>p. page wc \<le> p \<and> p < page wc + int (nat (target input - int (length (allJobs wc))))
             \<longrightarrow> world p = world' p"
        using "1.prems" wc guard by (auto split: if_splits)
      from "1.IH"[OF guard step[symmetric] Continue this]
      show ?thesis
        using guard step same Continue
        by (subst pageLoop.simps, subst (2) pageLoop.simps) simp
    next
      case (Failed e)
      then show ?thesis using guard step same
        by (subst pageLoop.simps, subst (2) pageLoop.simps) simp
    next
      case (Break wb)
      then show ?thesis using guard step same
        by (subst pageLoop.simps, subst (2) pageLoop.simps) simp
    qed
  qed
qed

lemma pageLoop_all_fed:
  assumes same: "\<forall>p proxy ua req resp doc. world p proxy ua req = Inr resp \<longrightarrow> Body resp = Inr doc
            \<longrightarrow> cards doc = cs"
    and fed: "\<forall>s \<in> set cs. fed lib baseURL input isc s"
    and loop: "pageLoop lib world input baseURL w isc = (Inr w', isc')"
  shows "w' = w"
proof (cases "int (length (allJobs w)) < target input")
  case False
  with loop show ?thesis by simp
next
  case guard: True
  obtain st isc1 where step: "pageStep lib world input baseURL w isc = (st, isc1)"
    by (cases "pageStep lib world input baseURL w isc")
  have no_new: "jobs = []"
    if "scrapePage lib (world (page w)) input (cursor w) baseURL isc = (Inr (jobs, c), isc2)"
    for jobs c isc2
  proof -
    from scrapePage_Inr[OF that] obtain hc proxy ua req resp doc where
      d: "world (page w) proxy ua req = Inr resp" "Body resp = Inr doc"
      "foldl (eachCard lib baseURL input) ([], isc\<lparr>bs_httpClient := hc\<rparr>) (cards doc) = (jobs, isc2)"
      by blast
    from same d have "cards doc = cs" by blast
    with fed have "\<forall>s \<in> set (cards doc). fed lib baseURL input (snd ([], isc\<lparr>bs_httpClient := hc\<rparr>)) s"
      by simp
    from foldl_eachCard_fed[OF this] d(3) show ?thesis by simp
  qed
  show ?thesis
  proof (cases st)
    case (Failed e)
    with loop guard step show ?thesis by simp
  next
    case (Break wb)
    with loop guard step have "w' = wb" by simp
    with pageStep_cases[OF step] Break no_new show ?thesis by auto
  next
    case (Continue wc)
    with pageStep_cases[OF step] no_new show ?thesis by auto
  qed
qed

lemma pageLoop_repeated_page:
  assumes same: "\<forall>p proxy ua req resp doc. world p proxy ua req = Inr resp \<longrightarrow> Body resp = Inr doc
            \<longrightarrow> cards doc = cs"
    and loop: "pageLoop lib world input baseURL w isc = (Inr w', isc')"
  shows "page w' \<le> page w + 1"
proof (cases "int (length (allJobs w)) < target input")
  case False
  with loop show ?thesis by simp
next
  case guard: True
  obtain st isc1 where step: "pageStep lib world input baseURL w isc = (st, isc1)"
    by (cases "pageStep lib world input baseURL w isc")
  show ?thesis
  proof (cases st)
    case (Failed e)
    with loop guard step show ?thesis by simp
  next
    case (Break wb)
    with loop guard step have "w' = wb" by simp
    with pageStep_cases[OF step] Break show ?thesis by auto
  next
    case (Continue wc)
    with loop guard step have rest: "pageLoop lib world input baseURL wc isc1 = (Inr w', isc')"
      by simp
    from pageStep_cases[OF step] Continue obtain jobs c where
      wc: "page wc = page w + 1"
      and sp: "scrapePage lib (world (page w)) input (cursor w) baseURL isc = (Inr (jobs, c), isc1)"
      by auto
    from scrapePage_Inr[OF sp] obtain hc proxy ua req resp doc where
      d: "world (page w) proxy ua req = Inr resp" "Body resp = Inr doc"
      "foldl (eachCard lib baseURL input) ([], isc\<lparr>bs_httpClient := hc\<rparr>) (cards doc) = (jobs, isc1)"
      by blast
    from same d have "cards doc = cs" by blast
    with d(3) have "\<forall>s \<in> set cs. fed lib baseURL input isc1 s"
      using foldl_eachCard_marks[of _ cs lib baseURL input "([], isc\<lparr>bs_httpClient := hc\<rparr>)"] by simp
    from pageLoop_all_fed[OF same this rest] wc show ?thesis by simp
  qed
qed

lemma pageLoop_target_reached:
  "target input \<le> int (length (allJobs w)) \<Longrightarrow> pageLoop lib world input baseURL w isc = (Inr w, isc)"
  by simp

lemma pageLoop_error:
  assumes "int (length (allJobs w)) < target input"
    and "scrapePage lib (world (page w)) input (cursor w) baseURL isc = (Inl e, isc1)"
  shows "pageLoop lib world input baseURL w isc = (Inl (ErrScrapingPage (page w) e), isc1)"
proof -
  have "pageStep lib world input baseURL w isc = (Failed (ErrScrapingPage (page w) e), isc1)"
    using assms by (simp add: pageStep_def Let_def)
  with assms(1) show ?thesis by simp
qed

lemma pageLoop_no_new_posting:
  assumes "int (length (allJobs w)) < target input"
    and "scrapePage lib (world (page w)) input (cursor w) baseURL isc = (Inr ([], c), isc1)"
  shows "pageLoop lib world input baseURL w isc = (Inr w, isc1)"
proof -
  have "pageStep lib world input baseURL w isc = (Break w, isc1)"
    using assms by (simp add: pageStep_def Let_def)
  with assms(1) show ?thesis by simp
qed

lemma pageLoop_no_cursor:
  assumes "int (length (allJobs w)) < target input"
    and "scrapePage lib (world (page w)) input (cursor w) baseURL isc = (Inr (jobs, []), isc1)"
    and "jobs \<noteq> []"
  shows "pageLoop lib world input baseURL w isc
     = (Inr \<lparr>allJobs = allJobs w @ jobs, page = page w + 1, cursor = []\<rparr>, isc1)"
proof -
  have "pageStep lib world input baseURL w isc
      = (Break \<lparr>allJobs = allJobs w @ jobs, page = page w + 1, cursor = []\<rparr>, isc1)"
    using assms by (simp add: pageStep_def Let_def)
  with assms(1) show ?thesis by simp
qed

lemma target_in_range:
  "- (2 ^ 63) \<le> ResultsWanted input + Offset input \<Longrightarrow> ResultsWanted input + Offset input < 2 ^ 63
   \<Longrightarrow> target input = ResultsWanted input + Offset input"
  by (simp add: target_def wrap64_def)

lemma Scrape_walk_error:
  assumes "fst (pageLoop lib world input (''https://'' @ fst (getCountryDomain (Country_si input)) @ ''.indeed.com'')
            \<lparr>allJobs = [], page = 1, cursor = []\<rparr>
            (isc\<lparr>apiCountryCode := snd (getCountryDomain (Country_si input))\<rparr>)) = Inl err"
  shows "fst (IndeedScraper_Scrape lib world input isc) = Returns (Inl err)"
  using assms by (simp add: IndeedScraper_Scrape_def Let_def)

text \<open>
  C3, as the code has it. The loop of \<open>Scrape\<close> is a total function: its recursion is
  well-founded, because a page that lets the walk go on makes \<open>allJobs\<close> longer and the
  walk only goes on while \<open>allJobs\<close> is shorter than \<open>ResultsWanted + Offset\<close>. \<open>page\<close> is the
  loop's own counter, one more for every page appended, and the request of an iteration is
  made for the page it counts. With \<open>n\<close> for what is missing from \<open>ResultsWanted + Offset\<close>
  at the start, the theorem says, for a walk from any state \<open>w\<close>:
  \<^item> it ends with the error of a page below \<open>page w + n\<close>, or with a state whose page is at
    most \<open>page w + n\<close>; a walk that ends with a state ends with the count reached, with an
    empty cursor, or with a page that brought no new posting;
  \<^item> it ends at once, without a request, when the count is reached;
  \<^item> otherwise it requests a page, and it ends with the error of \<open>scrapePage\<close>, with the page
    number added, when the page fails; it ends with its state unchanged when the page brings
    no new posting, whatever the cursor; it ends with the postings appended when they come
    without a cursor; and it goes on from the state with the postings appended when they
    come with a cursor;
  \<^item> it makes no request beyond page \<open>page w + n - 1\<close>: two networks that agree up to there
    give the same walk;
  \<^item> when the source serves the same cards on every page, whatever the cursor, at most one
    page is appended: the second brings nothing new and ends the walk;
  \<^item> the count is the sum \<open>ResultsWanted + Offset\<close> itself when that is a Go \<open>int\<close>;
  \<^item> \<open>Scrape\<close> returns the error with which its walk ends.
\<close>

theorem pagination_walk_terminates:
  "(case fst (pageLoop lib world input baseURL w isc) of
      Inl err \<Rightarrow>
        (\<exists>p e'. err = ErrScrapingPage p e' \<and> page w \<le> p
           \<and> p < page w + int (nat (wrap64 (ResultsWanted input + Offset input)
                                      - int (length (allJobs w)))))
    | Inr w' \<Rightarrow>
        page w \<le> page w'
        \<and> page w' \<le> page w + int (nat (wrap64 (ResultsWanted input + Offset input)
                                         - int (length (allJobs w))))
        \<and> (wrap64 (ResultsWanted input + Offset input) \<le> int (length (allJobs w'))
            \<or> cursor w' = []
            \<or> (\<exists>isc0 c. scrapePage lib (world (page w')) input (cursor w') baseURL isc0
                   = (Inr ([], c), snd (pageLoop lib world input baseURL w isc)))))
   \<and> (wrap64 (ResultsWanted input + Offset input) \<le> int (length (allJobs w))
        \<longrightarrow> pageLoop lib world input baseURL w isc = (Inr w, isc))
   \<and> (int (length (allJobs w)) < wrap64 (ResultsWanted input + Offset input)
        \<and> scrapePage lib (world (page w)) input (cursor w) baseURL isc = (Inl e, isc1)
        \<longrightarrow> pageLoop lib world input baseURL w isc = (Inl (ErrScrapingPage (page w) e), isc1))
   \<and> (int (length (allJobs w)) < wrap64 (ResultsWanted input + Offset input)
        \<and> scrapePage lib (world (page w)) input (cursor w) baseURL isc = (Inr ([], c), isc1)
        \<longrightarrow> pageLoop lib world input baseURL w isc = (Inr w, isc1))
   \<and> (int (length (allJobs w)) < wrap64 (ResultsWanted input + Offset input)
        \<and> scrapePage lib (world (page w)) input (cursor w) baseURL isc = (Inr (jobs, []), isc1)
        \<and> jobs \<noteq> []
        \<longrightarrow> pageLoop lib world input baseURL w isc
            = (Inr \<lparr>allJobs = allJobs w @ jobs, page = page w + 1, cursor = []\<rparr>, isc1))
   \<and> (int (length (allJobs w)) < wrap64 (ResultsWanted input + Offset input)
        \<and> scrapePage lib (world (page w)) input (cursor w) baseURL isc = (Inr (jobs, c), isc1)
        \<and> jobs \<noteq> [] \<and> c \<noteq> []
        \<longrightarrow> pageLoop lib world input baseURL w isc
            = pageLoop lib world input baseURL
                \<lparr>allJobs = allJobs w @ jobs, page = page w + 1, cursor = c\<rparr> isc1)
   \<and> ((\<forall>p. page w \<le> p
             \<and> p < page w + int (nat (wrap64 (ResultsWanted input + Offset input)
                                        - int (length (allJobs w))))
             \<longrightarrow> world p = world' p)
        \<longrightarrow> pageLoop lib world input baseURL w isc = pageLoop lib world' input baseURL w isc)
   \<and> ((\<forall>p proxy ua req resp doc. world p proxy ua req = Inr resp \<longrightarrow> Body resp = Inr doc
             \<longrightarrow> cards doc = cs)
        \<longrightarrow> (case fst (pageLoop lib world input baseURL w isc) of
               Inl err \<Rightarrow> True
             | Inr w' \<Rightarrow> page w' \<le> page w + 1))
   \<and> (- (2 ^ 63) \<le> ResultsWanted input + Offset input
        \<and> ResultsWanted input + Offset input < 2 ^ 63
        \<longrightarrow> wrap64 (ResultsWanted input + Offset input) = ResultsWanted input + Offset input)
   \<and> (fst (pageLoop lib world input
             (''https://'' @ fst (getCountryDomain (Country_si input)) @ ''.indeed.com'')
             \<lparr>allJobs = [], page = 1, cursor = []\<rparr>
             (isc\<lparr>apiCountryCode := snd (getCountryDomain (Country_si input))\<rparr>)) = Inl e0
        \<longrightarrow> fst (IndeedScraper_Scrape lib world input isc) = Returns (Inl e0))"
proof -
  obtain r isc' where run: "pageLoop lib world input baseURL w isc = (r, isc')"
    by (cases "pageLoop lib world input baseURL w isc")
  have outcome: "(case fst (pageLoop lib world input baseURL w isc) of
      Inl err \<Rightarrow>
        (\<exists>p e'. err = ErrScrapingPage p e' \<and> page w \<le> p
           \<and> p < page w + int (nat (target input - int (length (allJobs w)))))
    | Inr w' \<Rightarrow>
        page w \<le> page w'
        \<and> page w' \<le> page w + int (nat (target input - int (length (allJobs w))))
        \<and> (target input \<le> int (length (allJobs w'))
            \<or> cursor w' = []
            \<or> (\<exists>isc0 c. scrapePage lib (world (page w')) input (cursor w') baseURL isc0
                   = (Inr ([], c), snd (pageLoop lib world input baseURL w isc)))))"
  proof (cases r)
    case (Inl err)
    with run pageLoop_error_page[of lib world input baseURL w isc err isc'] show ?thesis
      by simp
  next
    case (Inr w')
    with run pageLoop_page_bound[of lib world input baseURL w isc w' isc']
      pageLoop_terminal[of lib world input baseURL w isc w' isc']
    show ?thesis by simp
  qed
  have reached: "pageLoop lib world input baseURL w isc = (Inr w, isc)"
    if "target input \<le> int (length (allJobs w))"
    using that by (rule pageLoop_target_reached)
  have failed: "pageLoop lib world input baseURL w isc = (Inl (ErrScrapingPage (page w) e), isc1)"
    if "int (length (allJobs w)) < target input
        \<and> scrapePage lib (world (page w)) input (cursor w) baseURL isc = (Inl e, isc1)"
    using that pageLoop_error by blast
  have no_new: "pageLoop lib world input baseURL w isc = (Inr w, isc1)"
    if "int (length (allJobs w)) < target input
        \<and> scrapePage lib (world (page w)) input (cursor w) baseURL isc = (Inr ([], c), isc1)"
    using that pageLoop_no_new_posting by blast
  have no_cursor: "pageLoop lib world input baseURL w isc
            = (Inr \<lparr>allJobs = allJobs w @ jobs, page = page w + 1, cursor = []\<rparr>, isc1)"
    if "int (length (allJobs w)) < target input
        \<and> scrapePage lib (world (page w)) input (cursor w) baseURL isc = (Inr (jobs, []), isc1)
        \<and> jobs \<noteq> []"
    using that pageLoop_no_cursor by blast
  have goes_on: "pageLoop lib world input baseURL w isc
            = pageLoop lib world input baseURL
                \<lparr>allJobs = allJobs w @ jobs, page = page w + 1, cursor = c\<rparr> isc1"
    if "int (length (allJobs w)) < target input
        \<and> scrapePage lib (world (page w)) input (cursor w) baseURL isc = (Inr (jobs, c), isc1)
        \<and> jobs \<noteq> [] \<and> c \<noteq> []"
    using that pageLoop_goes_on by blast
  have range: "pageLoop lib world input baseURL w isc = pageLoop lib world' input baseURL w isc"
    if "\<forall>p. page w \<le> p \<and> p < page w + int (nat (target input - int (length (allJobs w))))
             \<longrightarrow> world p = world' p"
    using that by (rule pageLoop_world_range)
  have repeated: "(case fst (pageLoop lib world input baseURL w isc) of
               Inl err \<Rightarrow> True
             | Inr w' \<Rightarrow> page w' \<le> page w + 1)"
    if same: "\<forall>p proxy ua req resp doc. world p proxy ua req = Inr resp \<longrightarrow> Body resp = Inr doc
             \<longrightarrow> cards doc = cs"
  proof (cases r)
    case (Inl err)
    with run show ?thesis by simp
  next
    case (Inr w')
    with run pageLoop_repeated_page[OF same, of lib input baseURL w isc w' isc']
    show ?thesis by simp
  qed
  have in_range: "target input = ResultsWanted input + Offset input"
    if "- (2 ^ 63) \<le> ResultsWanted input + Offset input
        \<and> ResultsWanted input + Offset input < 2 ^ 63"
    using that target_in_range by blast
  have returned: "fst (IndeedScraper_Scrape lib world input isc) = Returns (Inl e0)"
    if "fst (pageLoop lib world input
             (''https://'' @ fst (getCountryDomain (Country_si input)) @ ''.indeed.com'')
             \<lparr>allJobs = [], page = 1, cursor = []\<rparr>
             (isc\<lparr>apiCountryCode := snd (getCountryDomain (Country_si input))\<rparr>)) = Inl e0"
    using that by (rule Scrape_walk_error)
  from outcome reached failed no_new no_cursor goes_on range repeated in_range returned
  show ?thesis
    unfolding target_def by blast
qed

theorem pagination_walk_terminates_witness:
  "(case fst (pageLoop exampleLib repeatingWorld exampleInput ''u''
        \<lparr>allJobs = [], page = 1, cursor = []\<rparr> (NewIndeedScraper [] [])) of
      Inl e \<Rightarrow> True
    | Inr w' \<Rightarrow> page w' \<le> 2)
   \<and> pageLoop exampleLib exampleWorld exampleInput ''u''
        \<lparr>allJobs = [], page = 1, cursor = []\<rparr> (NewIndeedScraper [] [])
     = pageLoop exampleLib (\<lambda>p. if p < 16 then exampleWorld p else downWorld p) exampleInput ''u''
        \<lparr>allJobs = [], page = 1, cursor = []\<rparr> (NewIndeedScraper [] [])
   \<and> page (projr (fst (pageLoop exampleLib exampleWorld exampleInput ''u''
        \<lparr>allJobs = [], page = 1, cursor = []\<rparr> (NewIndeedScraper [] [])))) \<le> 16
   \<and> pageLoop exampleLib downWorld (exampleInput\<lparr>ResultsWanted := 0\<rparr>) ''u''
        \<lparr>allJobs = [], page = 1, cursor = []\<rparr> (NewIndeedScraper [] [])
     = (Inr \<lparr>allJobs = [], page = 1, cursor = []\<rparr>, NewIndeedScraper [] [])
   \<and> fst (pageLoop exampleLib downWorld exampleInput ''u''
        \<lparr>allJobs = [], page = 1, cursor = []\<rparr> (NewIndeedScraper [] []))
     = Inl (ErrScrapingPage 1 (ErrMakingRequest ''connection refused''))
   \<and> fst (pageLoop exampleLib emptyWorld exampleInput ''u''
        \<lparr>allJobs = [], page = 1, cursor = []\<rparr> (NewIndeedScraper [] []))
     = Inr \<lparr>allJobs = [], page = 1, cursor = []\<rparr>
   \<and> fst (pageLoop exampleLib exampleWorld exampleInput ''u''
        \<lparr>allJobs = [], page = 2, cursor = ''10''\<rparr> (NewIndeedScraper [] []))
     = Inr \<lparr>allJobs = [examplePosting ''u'' ''b2'' ''SRE'', examplePosting ''u'' ''c3'' ''QA''],
            page = 3, cursor = []\<rparr>
   \<and> pageLoop exampleLib brokenWorld exampleInput ''u''
        \<lparr>allJobs = [], page = 1, cursor = []\<rparr> (NewIndeedScraper [] [])
     = pageLoop exampleLib brokenWorld exampleInput ''u''
        \<lparr>allJobs = [examplePosting ''u'' ''a1'' ''Dev'', examplePosting ''u'' ''b2'' ''SRE''],
          page = 2, cursor = ''10''\<rparr>
        (snd (scrapePage exampleLib (brokenWorld 1) exampleInput [] ''u'' (NewIndeedScraper [] [])))
   \<and> wrap64 (ResultsWanted exampleInput + Offset exampleInput) = 15
   \<and> fst (IndeedScraper_Scrape exampleLib downWorld exampleInput (NewIndeedScraper [] []))
     = Returns (Inl (ErrScrapingPage 1 (ErrMakingRequest ''connection refused'')))"
proof -
  define w0 where "w0 = \<lparr>allJobs = [], page = 1, cursor = []\<rparr>"
  define w2 where "w2 = \<lparr>allJobs = [], page = 2, cursor = ''10''\<rparr>"
  define isc0 where "isc0 = NewIndeedScraper [] []"
  note thm0 = pagination_walk_terminates[where lib = exampleLib and input = exampleInput
      and baseURL = "''u''" and isc = isc0]
  have T: "wrap64 (ResultsWanted exampleInput + Offset exampleInput) = 15"
    by (simp add: wrap64_def exampleInput_def)
  have T0: "wrap64 (ResultsWanted (exampleInput\<lparr>ResultsWanted := 0\<rparr>)
        + Offset (exampleInput\<lparr>ResultsWanted := 0\<rparr>)) = 0"
    by (simp add: wrap64_def exampleInput_def)
  have len0: "int (length (allJobs w0)) = 0" "page w0 = 1" "cursor w0 = []" "allJobs w0 = []"
    by (simp_all add: w0_def)
  have len2: "int (length (allJobs w2)) = 0" "page w2 = 2" "cursor w2 = ''10''" "allJobs w2 = []"
    by (simp_all add: w2_def)
  have same: "\<forall>p proxy ua req resp doc. repeatingWorld p proxy ua req = Inr resp
      \<longrightarrow> Body resp = Inr doc
      \<longrightarrow> cards doc = [exampleCard ''a1'' ''Dev'', exampleCard ''b2'' ''SRE'']"
    by (auto simp: repeatingWorld_def)
  have agree: "\<forall>p. page w0 \<le> p
      \<and> p < page w0 + int (nat (wrap64 (ResultsWanted exampleInput + Offset exampleInput)
                                 - int (length (allJobs w0))))
      \<longrightarrow> exampleWorld p = (\<lambda>p. if p < 16 then exampleWorld p else downWorld p) p"
    unfolding T len0 by simp
  have returns: "\<not> isl (fst (pageLoop exampleLib exampleWorld exampleInput ''u'' w0 isc0))"
    unfolding w0_def isc0_def
    by (simp add: walk_eval card_eval example_eval char_eval)
  have down: "scrapePage exampleLib (downWorld (page w0)) exampleInput (cursor w0) ''u'' isc0
      = (Inl (ErrMakingRequest ''connection refused''),
         snd (scrapePage exampleLib (downWorld (page w0)) exampleInput (cursor w0) ''u'' isc0))"
    unfolding len0 isc0_def
    by (simp add: prod_eq_iff downWorld_def walk_eval example_eval)
  have empty: "scrapePage exampleLib (emptyWorld (page w0)) exampleInput (cursor w0) ''u'' isc0
      = (Inr ([], []),
         snd (scrapePage exampleLib (emptyWorld (page w0)) exampleInput (cursor w0) ''u'' isc0))"
    unfolding len0 isc0_def
    by (simp add: prod_eq_iff emptyWorld_def walk_eval example_eval)
  have last_page: "scrapePage exampleLib (exampleWorld (page w2)) exampleInput (cursor w2) ''u'' isc0
      = (Inr ([examplePosting ''u'' ''b2'' ''SRE'', examplePosting ''u'' ''c3'' ''QA''], []),
         snd (scrapePage exampleLib (exampleWorld (page w2)) exampleInput (cursor w2) ''u'' isc0))"
    unfolding len2 isc0_def
    by (simp add: prod_eq_iff examplePosting_def walk_eval card_eval example_eval char_eval)
  have first_page: "scrapePage exampleLib (brokenWorld (page w0)) exampleInput (cursor w0) ''u'' isc0
      = (Inr ([examplePosting ''u'' ''a1'' ''Dev'', examplePosting ''u'' ''b2'' ''SRE''], ''10''),
         snd (scrapePage exampleLib (brokenWorld (page w0)) exampleInput (cursor w0) ''u'' isc0))"
    unfolding len0 isc0_def
    by (simp add: prod_eq_iff brokenWorld_def examplePosting_def walk_eval card_eval example_eval
        char_eval)
  have whole_walk: "fst (pageLoop exampleLib downWorld exampleInput
             (''https://'' @ fst (getCountryDomain (Country_si exampleInput)) @ ''.indeed.com'')
             \<lparr>allJobs = [], page = 1, cursor = []\<rparr>
             (isc0\<lparr>apiCountryCode := snd (getCountryDomain (Country_si exampleInput))\<rparr>))
      = Inl (ErrScrapingPage 1 (ErrMakingRequest ''connection refused''))"
    unfolding isc0_def
    by (simp add: downWorld_def walk_eval example_eval getCountryDomain_def CountryUSA_def)
  have bound: "page (projr (fst (pageLoop exampleLib exampleWorld exampleInput ''u'' w0 isc0)))
      \<le> page w0 + int (nat (wrap64 (ResultsWanted exampleInput + Offset exampleInput)
                               - int (length (allJobs w0))))"
    using thm0[where world = exampleWorld and w = w0] returns
    by (cases "fst (pageLoop exampleLib exampleWorld exampleInput ''u'' w0 isc0)") simp_all
  then have third: "page (projr (fst (pageLoop exampleLib exampleWorld exampleInput ''u'' w0 isc0)))
      \<le> 16"
    unfolding T len0 by simp
  have next_page: "page w0 + 1 = 2"
    by (simp add: w0_def)
  from thm0[where world = repeatingWorld and w = w0
      and cs = "[exampleCard ''a1'' ''Dev'', exampleCard ''b2'' ''SRE'']"] same
  have first: "(case fst (pageLoop exampleLib repeatingWorld exampleInput ''u'' w0 isc0) of
      Inl e \<Rightarrow> True
    | Inr w' \<Rightarrow> page w' \<le> 2)"
    unfolding next_page by blast
  from thm0[where world = exampleWorld and w = w0
      and world' = "\<lambda>p. if p < 16 then exampleWorld p else downWorld p"] agree
  have second: "pageLoop exampleLib exampleWorld exampleInput ''u'' w0 isc0
     = pageLoop exampleLib (\<lambda>p. if p < 16 then exampleWorld p else downWorld p) exampleInput ''u''
         w0 isc0"
    by blast
  have "wrap64 (ResultsWanted (exampleInput\<lparr>ResultsWanted := 0\<rparr>)
        + Offset (exampleInput\<lparr>ResultsWanted := 0\<rparr>)) \<le> int (length (allJobs w0))"
    unfolding T0 len0 by simp
  with pagination_walk_terminates[where lib = exampleLib and world = downWorld
      and input = "exampleInput\<lparr>ResultsWanted := 0\<rparr>" and baseURL = "''u''" and w = w0
      and isc = isc0]
  have reached: "pageLoop exampleLib downWorld (exampleInput\<lparr>ResultsWanted := 0\<rparr>) ''u'' w0 isc0
      = (Inr w0, isc0)"
    by blast
  have below: "int (length (allJobs w0)) < wrap64 (ResultsWanted exampleInput + Offset exampleInput)"
    "int (length (allJobs w2)) < wrap64 (ResultsWanted exampleInput + Offset exampleInput)"
    unfolding T len0 len2 by simp_all
  from thm0[where world = downWorld and w = w0
      and e = "ErrMakingRequest ''connection refused''"
      and ?isc1.0 = "snd (scrapePage exampleLib (downWorld (page w0)) exampleInput (cursor w0) ''u'' isc0)"]
    below(1) down
  have "pageLoop exampleLib downWorld exampleInput ''u'' w0 isc0
      = (Inl (ErrScrapingPage (page w0) (ErrMakingRequest ''connection refused'')),
         snd (scrapePage exampleLib (downWorld (page w0)) exampleInput (cursor w0) ''u'' isc0))"
    by blast
  then have failed: "fst (pageLoop exampleLib downWorld exampleInput ''u'' w0 isc0)
      = Inl (ErrScrapingPage 1 (ErrMakingRequest ''connection refused''))"
    unfolding len0 by (simp del: pageLoop.simps)
  from thm0[where world = emptyWorld and w = w0 and c = "[]"
      and ?isc1.0 = "snd (scrapePage exampleLib (emptyWorld (page w0)) exampleInput (cursor w0) ''u'' isc0)"]
    below(1) empty
  have "pageLoop exampleLib emptyWorld exampleInput ''u'' w0 isc0
      = (Inr w0,
         snd (scrapePage exampleLib (emptyWorld (page w0)) exampleInput (cursor w0) ''u'' isc0))"
    by blast
  then have no_new: "fst (pageLoop exampleLib emptyWorld exampleInput ''u'' w0 isc0) = Inr w0"
    by (simp del: pageLoop.simps)
  have ne: "[examplePosting ''u'' ''b2'' ''SRE'', examplePosting ''u'' ''c3'' ''QA''] \<noteq> []"
    "[examplePosting ''u'' ''a1'' ''Dev'', examplePosting ''u'' ''b2'' ''SRE''] \<noteq> []"
    "''10'' \<noteq> []"
    by simp_all
  from thm0[where world = exampleWorld and w = w2
      and jobs = "[examplePosting ''u'' ''b2'' ''SRE'', examplePosting ''u'' ''c3'' ''QA'']"
      and ?isc1.0 = "snd (scrapePage exampleLib (exampleWorld (page w2)) exampleInput (cursor w2) ''u'' isc0)"]
    below(2) last_page ne(1)
  have "pageLoop exampleLib exampleWorld exampleInput ''u'' w2 isc0
      = (Inr \<lparr>allJobs = allJobs w2 @ [examplePosting ''u'' ''b2'' ''SRE'', examplePosting ''u'' ''c3'' ''QA''],
              page = page w2 + 1, cursor = []\<rparr>,
         snd (scrapePage exampleLib (exampleWorld (page w2)) exampleInput (cursor w2) ''u'' isc0))"
    by blast
  then have no_cursor: "fst (pageLoop exampleLib exampleWorld exampleInput ''u'' w2 isc0)
      = Inr \<lparr>allJobs = [examplePosting ''u'' ''b2'' ''SRE'', examplePosting ''u'' ''c3'' ''QA''],
             page = 3, cursor = []\<rparr>"
    unfolding len2 by (simp del: pageLoop.simps)
  from thm0[where world = brokenWorld and w = w0
      and jobs = "[examplePosting ''u'' ''a1'' ''Dev'', examplePosting ''u'' ''b2'' ''SRE'']"
      and c = "''10''"
      and ?isc1.0 = "snd (scrapePage exampleLib (brokenWorld (page w0)) exampleInput (cursor w0) ''u'' isc0)"]
    below(1) first_page ne(2,3)
  have "pageLoop exampleLib brokenWorld exampleInput ''u'' w0 isc0
      = pageLoop exampleLib brokenWorld exampleInput ''u''
          \<lparr>allJobs = allJobs w0 @ [examplePosting ''u'' ''a1'' ''Dev'', examplePosting ''u'' ''b2'' ''SRE''],
            page = page w0 + 1, cursor = ''10''\<rparr>
          (snd (scrapePage exampleLib (brokenWorld (page w0)) exampleInput (cursor w0) ''u'' isc0))"
    by blast
  then have goes_on: "pageLoop exampleLib brokenWorld exampleInput ''u'' w0 isc0
      = pageLoop exampleLib brokenWorld exampleInput ''u''
          \<lparr>allJobs = [examplePosting ''u'' ''a1'' ''Dev'', examplePosting ''u'' ''b2'' ''SRE''],
            page = 2, cursor = ''10''\<rparr>
          (snd (scrapePage exampleLib (brokenWorld 1) exampleInput [] ''u'' isc0))"
    unfolding len0 by (simp del: pageLoop.simps)
  from thm0[where world = downWorld and ?e0.0 = "ErrScrapingPage 1 (ErrMakingRequest ''connection refused'')"]
    whole_walk
  have scrape: "fst (IndeedScraper_Scrape exampleLib downWorld exampleInput isc0)
      = Returns (Inl (ErrScrapingPage 1 (ErrMakingRequest ''connection refused'')))"
    by blast
  from first second third reached failed no_new no_cursor goes_on T scrape show ?thesis
    unfolding w0_def w2_def isc0_def by (simp del: pageLoop.simps)
qed


lemma cex_step:
  "fst (pageStep exampleLib brokenWorld exampleInput ''https://www.indeed.com''
          \<lparr>allJobs = [], page = 1, cursor = []\<rparr>
          ((NewIndeedScraper [] [])\<lparr>apiCountryCode := ''us''\<rparr>))
     = Continue \<lparr>allJobs = [examplePosting ''https://www.indeed.com'' ''a1'' ''Dev'',
                             examplePosting ''https://www.indeed.com'' ''b2'' ''SRE''],
                  page = 2, cursor = ''10''\<rparr>"
  by (simp add: brokenWorld_def examplePosting_def walk_eval card_eval example_eval char_eval)

lemma cex_target: "target exampleInput = 15"
  by (simp add: target_def wrap64_def exampleInput_def)

lemma cex_scrape:
  "fst (IndeedScraper_Scrape exampleLib brokenWorld exampleInput (NewIndeedScraper [] []))
     = Returns (Inl (ErrScrapingPage 2 (ErrMakingRequest ''timeout'')))"
  by (simp add: IndeedScraper_Scrape_def getCountryDomain_def CountryUSA_def CountryCanada_def
      CountryUK_def CountryGermany_def CountryFrance_def
      brokenWorld_def walk_eval card_eval example_eval char_eval)

text \<open>
  The walk does not end only when one of the three conditions holds, and not always with
  success. On a network that serves the first page and then fails, the first page brings two
  new postings and the cursor \<open>10\<close>, and 2 is less than the 15 postings wanted: none of the
  three conditions holds, and the walk goes on. The request for the second page fails, and
  \<open>Scrape\<close> returns that error and none of the postings.
\<close>

theorem walk_ends_with_error_counterexample:
  "fst (pageStep exampleLib brokenWorld exampleInput ''https://www.indeed.com''
          \<lparr>allJobs = [], page = 1, cursor = []\<rparr>
          ((NewIndeedScraper [] [])\<lparr>apiCountryCode := ''us''\<rparr>))
     = Continue \<lparr>allJobs = [examplePosting ''https://www.indeed.com'' ''a1'' ''Dev'',
                             examplePosting ''https://www.indeed.com'' ''b2'' ''SRE''],
                  page = 2, cursor = ''10''\<rparr>
   \<and> target exampleInput = 15
   \<and> fst (IndeedScraper_Scrape exampleLib brokenWorld exampleInput (NewIndeedScraper [] []))
     = Returns (Inl (ErrScrapingPage 2 (ErrMakingRequest ''timeout'')))"
  using cex_step cex_target cex_scrape by simp

section \<open>The offset and the limit\<close>

text \<open>
  For an offset and a number of results that are not negative and whose sum is a Go \<open>int\<close>,
  \<open>Scrape\<close> returns the window \<open>[offset, offset + resultsWanted)\<close> of the accumulated
  postings, cut at their length: 25 postings with offset 10 and 5 results wanted give the
  postings 10 to 14, and an offset beyond the length gives the empty slice.
\<close>

lemma wrap64_id: "- (2 ^ 63) \<le> x \<Longrightarrow> x < 2 ^ 63 \<Longrightarrow> wrap64 x = x"
  by (simp add: wrap64_def)

lemma goSlice_clamped:
  assumes "0 \<le> lo" "0 \<le> n"
  shows "goSlice xs (if lo > int (length xs) then int (length xs) else lo)
           (if lo + n > int (length xs) then int (length xs) else lo + n)
         = Some (take (nat n) (drop (nat lo) xs))"
proof -
  have "take (nat (int (length xs) - lo)) (drop (nat lo) xs) = take (nat n) (drop (nat lo) xs)"
    if "lo \<le> int (length xs)" "lo + n > int (length xs)"
    using that assms by simp
  then show ?thesis
    using assms by (auto simp: goSlice_def)
qed

lemma applyOffsetLimit_window:
  assumes "0 \<le> Offset input" "0 \<le> ResultsWanted input"
    "Offset input + ResultsWanted input < 2 ^ 63"
  shows "applyOffsetLimit input jobs
     = Returns (Inr \<lparr>Jobs = take (nat (ResultsWanted input)) (drop (nat (Offset input)) jobs)\<rparr>)"
proof -
  have "wrap64 (Offset input + ResultsWanted input) = Offset input + ResultsWanted input"
    using assms by (intro wrap64_id) simp_all
  then show ?thesis
    using goSlice_clamped[OF assms(1,2), of jobs]
    by (simp add: applyOffsetLimit_def Let_def)
qed

lemma applyOffsetLimit_example:
  assumes "length jobs = 25"
  shows "\<exists>window. applyOffsetLimit (input\<lparr>Offset := 10, ResultsWanted := 5\<rparr>) jobs
            = Returns (Inr \<lparr>Jobs = window\<rparr>)
          \<and> length window = 5 \<and> (\<forall>i < 5. window ! i = jobs ! (10 + i))"
  using applyOffsetLimit_window[of "input\<lparr>Offset := 10, ResultsWanted := 5\<rparr>" jobs] assms
  by simp

lemma applyOffsetLimit_beyond:
  assumes "int (length jobs) \<le> Offset input" "0 \<le> ResultsWanted input"
    "Offset input + ResultsWanted input < 2 ^ 63"
  shows "applyOffsetLimit input jobs = Returns (Inr \<lparr>Jobs = []\<rparr>)"
  using applyOffsetLimit_window[of input jobs] assms by simp

lemma IndeedScraper_Scrape_returns:
  assumes "0 \<le> Offset input" "0 \<le> ResultsWanted input"
    "Offset input + ResultsWanted input < 2 ^ 63"
  shows "fst (IndeedScraper_Scrape lib world input isc) \<noteq> Panics"
  using applyOffsetLimit_window[OF assms]
  by (simp add: IndeedScraper_Scrape_def Let_def split: sum.splits)

text \<open>
  C5, at an input where the adapter fails. The bounds are clamped from above only. With
  \<open>ResultsWanted = -5\<close> and \<open>Offset = 0\<close> (\<^verbatim>\<open>-results -5\<close> on the command line) the loop does
  not run, \<open>end\<close> is \<open>-5\<close> and the slice expression \<open>allJobs[0:-5]\<close> panics, whatever was
  accumulated.
\<close>

theorem negative_results_wanted_panics:
  "applyOffsetLimit (input\<lparr>Offset := 0, ResultsWanted := - 5\<rparr>) jobs = Panics
   \<and> fst (IndeedScraper_Scrape lib world (input\<lparr>Offset := 0, ResultsWanted := - 5\<rparr>) isc) = Panics"
  by (simp add: applyOffsetLimit_def goSlice_def wrap64_def IndeedScraper_Scrape_def target_def Let_def)

section \<open>Compensation parsing\<close>

text \<open>
  What \<open>parseSalary\<close> does with the amounts that parse: a text without a digit and without
  a comma has no match and gives no compensation; one amount is both minimum and maximum;
  of two or more amounts the first is the minimum and the second the maximum; the
  interval is inferred from the text and the currency is \<open>USD\<close>.
\<close>

lemma salaryMatches_none:
  "\<forall>ch \<in> set s. \<not> isAmountChar ch \<Longrightarrow> salaryMatches s = []"
proof (induction s rule: salaryMatches.induct)
  case 1
  show ?case by simp
next
  case (2 c cs)
  have no: "\<not> isAmountChar c" using "2.prems" by simp
  have "takeWhile isAmountChar (if c = CHR ''$'' then cs else c # cs) = []"
    using "2.prems" by (cases cs) (auto simp: no)
  then have "matchSalaryAt (c # cs) = None"
    by (simp add: matchSalaryAt_def Let_def)
  with 2 show ?case by simp
qed

lemma parseSalary_no_token:
  "\<forall>ch \<in> set s. \<not> isDigit ch \<and> ch \<noteq> CHR '','' \<Longrightarrow> parseSalary lib s = None"
  using salaryMatches_none[of s]
  by (simp add: parseSalary_def isAmountChar_def Let_def)

lemma parseSalary_no_match: "salaryMatches s = [] \<Longrightarrow> parseSalary lib s = None"
  by (simp add: parseSalary_def Let_def)

lemma parseSalary_amounts:
  assumes "salaryAmounts lib s = a # rest"
  shows "parseSalary lib s
     = Some \<lparr>Interval = salaryInterval s, MinAmount = Some a,
             MaxAmount = Some (case rest of [] \<Rightarrow> a | b # _ \<Rightarrow> b), Currency = Some ''USD''\<rparr>"
proof -
  from assms have m: "salaryMatches s \<noteq> []"
    by (auto simp: salaryAmounts_def List.map_filter_def)
  then have ne: "s \<noteq> []" by auto
  show ?thesis
    using assms m ne
    by (cases rest) (simp_all add: parseSalary_def salaryAmounts_def salaryInterval_def Let_def)
qed

lemma parseSalary_example:
  "parseSalary exampleLib ''$50,000 - $70,000 a year''
     = Some \<lparr>Interval = Some IntervalYearly, MinAmount = Some 50000, MaxAmount = Some 70000,
             Currency = Some ''USD''\<rparr>"
  by (simp add: parseSalary_def matchSalaryAt_def strings_ToLower_def List.map_filter_def
      example_eval char_eval)

text \<open>
  C4, at an input where the code differs. The pattern also matches a comma that stands
  alone. The text \<open>Negotiable, DOE\<close> has no number, but it has one match, so \<open>parseSalary\<close>
  goes on, parses no amount and returns a compensation that has the currency only.
\<close>

theorem comma_without_number_yields_compensation:
  "salaryMatches ''Negotiable, DOE'' = ['','']
   \<and> parseSalary exampleLib ''Negotiable, DOE''
     = Some \<lparr>Interval = None, MinAmount = None, MaxAmount = None, Currency = Some ''USD''\<rparr>"
  by (simp add: parseSalary_def matchSalaryAt_def strings_ToLower_def List.map_filter_def
      example_eval char_eval)

section \<open>Proxy rotation\<close>












section \<open>The orchestrator and the errors of the adapters\<close>

lemma results_concat:
  "concat (map Jobs (List.map_filter
      (\<lambda>out. case out of Returns (Inr result) \<Rightarrow> Some result | _ \<Rightarrow> None) outs))
   = concat (map postingsOf outs)"
  by (induction outs)
    (auto simp: List.map_filter_def postingsOf_def split: outcome.splits sum.splits)

lemma errors_concat:
  "List.map_filter (\<lambda>out. case out of Returns (Inl err) \<Rightarrow> Some err | _ \<Rightarrow> None) outs
   = concat (map errorsOf outs)"
  by (induction outs)
    (auto simp: List.map_filter_def errorsOf_def split: outcome.splits sum.splits)

lemma launched_of_sites:
  "List.map_filter scrapers sites = map (\<lambda>site. the (scrapers site)) (launchedSites scrapers sites)"
  by (induction sites) (auto simp: List.map_filter_def launchedSites_def)

lemma length_outcomes: "length (outcomes scrapers sites inp) = length (launchedSites scrapers sites)"
  by (simp add: outcomes_def launched_of_sites)

lemma scrapeSites_returns:
  assumes "distinct (launchedSites scrapers sites)"
    and "Panics \<notin> set (outcomes scrapers sites inp)"
  shows "scrapeSites scrapers sites inp completion =
     Returned (Inr \<lparr>Jobs = concat (map (\<lambda>i. postingsOf (outcomes scrapers sites inp ! i)) completion)\<rparr>)
       (map WarnNotImplemented (filter (\<lambda>site. scrapers site = None) sites)
        @ map ErrorScrapingError
            (concat (map (\<lambda>i. errorsOf (outcomes scrapers sites inp ! i)) completion)))"
  using assms
  by (simp add: scrapeSites_def outcomes_def Let_def results_concat errors_concat comp_def)

lemma scrapeSites_panics:
  assumes "distinct (launchedSites scrapers sites)"
    and "Panics \<in> set (outcomes scrapers sites inp)"
  shows "scrapeSites scrapers sites inp completion = Panicked"
  using assms by (simp add: scrapeSites_def outcomes_def Let_def)

lemma mset_concat_map_cong:
  "mset xs = mset ys \<Longrightarrow> mset (concat (map h xs)) = mset (concat (map h ys))"
proof -
  have "mset (concat (map h zs)) = (\<Sum>z\<in>#mset zs. mset (h z))" for zs
    by (induction zs) simp_all
  then show "mset xs = mset ys \<Longrightarrow> mset (concat (map h xs)) = mset (concat (map h ys))"
    by simp
qed

lemma concat_map_nth_upt: "concat (map (\<lambda>i. h (xs ! i)) [0 ..< length xs]) = concat (map h xs)"
proof -
  have "map (\<lambda>i. h (xs ! i)) [0 ..< length xs] = map h (map (\<lambda>i. xs ! i) [0 ..< length xs])"
    by simp
  then show ?thesis by (simp only: map_nth)
qed

lemma completion_in_range:
  "mset completion = mset [0 ..< n] \<Longrightarrow> i \<in> set completion \<Longrightarrow> i < n"
  by (metis atLeastLessThan_iff set_mset_mset set_upt)

lemma completion_length:
  "completionOf scrapers sites completion
     \<Longrightarrow> mset completion = mset [0 ..< length (launchedSites scrapers sites)]"
  by (simp add: completionOf_def launched_of_sites)

lemma logged_errors_mset:
  assumes "completionOf scrapers sites completion"
  shows "mset (concat (map (\<lambda>i. errorsOf (outcomes scrapers sites inp ! i)) completion))
     = mset (concat (map errorsOf (outcomes scrapers sites inp)))"
proof -
  let ?outs = "outcomes scrapers sites inp"
  from completion_length[OF assms] have "mset completion = mset [0 ..< length ?outs]"
    by (simp add: length_outcomes)
  from mset_concat_map_cong[OF this, of "\<lambda>i. errorsOf (?outs ! i)"]
  show ?thesis by (simp add: concat_map_nth_upt)
qed

lemma outcomes_of_sites:
  "outcomes scrapers sites inp
     = map (\<lambda>site. fst (Scrape (the (scrapers site)) inp (receiver (the (scrapers site)))))
         (launchedSites scrapers sites)"
  by (simp add: outcomes_def launched_of_sites comp_def)

lemma launched_registered: "site \<in> set (launchedSites scrapers sites) \<Longrightarrow> scrapers site \<noteq> None"
  by (simp add: launchedSites_def)

lemma postings_nth:
  assumes "i < length (launchedSites scrapers sites)"
  shows "postingsOf (outcomes scrapers sites inp ! i)
     = adapterPostings scrapers inp (launchedSites scrapers sites ! i)"
proof -
  from assms have "launchedSites scrapers sites ! i \<in> set (launchedSites scrapers sites)"
    by simp
  then obtain s where "scrapers (launchedSites scrapers sites ! i) = Some s"
    using launched_registered by fastforce
  with assms show ?thesis
    by (simp add: outcomes_of_sites adapterPostings_def)
qed

lemma concat_map_filter_nil:
  "\<forall>x \<in> set xs. \<not> P x \<longrightarrow> f x = [] \<Longrightarrow> concat (map f (filter P xs)) = concat (map f xs)"
  by (induction xs) auto

lemma concat_map_filter_nth:
  "concat (map (\<lambda>i. h (xs ! i)) (filter (\<lambda>i. Q (xs ! i)) [0 ..< length xs]))
     = concat (map h (filter Q xs))"
proof -
  have "map (\<lambda>i. h (xs ! i)) (filter (\<lambda>i. Q (xs ! i)) [0 ..< length xs])
      = map h (filter Q (map (\<lambda>i. xs ! i) [0 ..< length xs]))"
    by (simp add: filter_map comp_def)
  then show ?thesis by (simp only: map_nth)
qed

lemma concat_map_if:
  "concat (map (\<lambda>x. if x = a then [e] else []) xs) = map (\<lambda>x. e) (filter (\<lambda>x. x = a) xs)"
  by (induction xs) auto

lemma filter_eq_distinct:
  "distinct xs \<Longrightarrow> filter (\<lambda>y. y = x) xs = (if x \<in> set xs then [x] else [])"
  by (induction xs) auto

lemma one_failing:
  assumes dist: "distinct sites"
    and comp: "completionOf scrapers sites completion"
    and fail: "scrapers failing = Some sf" "fst (Scrape sf inp (receiver sf)) = Returns (Inl err)"
    and ok: "\<forall>site \<in> set sites. site \<noteq> failing \<longrightarrow>
        (\<forall>s. scrapers site = Some s \<longrightarrow> (\<exists>result. fst (Scrape s inp (receiver s)) = Returns (Inr result)))"
  shows "scrapeSites scrapers sites inp completion
      = Returned
          (Inr \<lparr>Jobs = concat (map (\<lambda>i. adapterPostings scrapers inp (launchedSites scrapers sites ! i))
                           (filter (\<lambda>i. launchedSites scrapers sites ! i \<noteq> failing) completion))\<rparr>)
          (map WarnNotImplemented (filter (\<lambda>site. scrapers site = None) sites)
           @ (if failing \<in> set sites then [ErrorScrapingError err] else []))"
    and "mset (concat (map (\<lambda>i. adapterPostings scrapers inp (launchedSites scrapers sites ! i))
                           (filter (\<lambda>i. launchedSites scrapers sites ! i \<noteq> failing) completion)))
      = mset (concat (map (adapterPostings scrapers inp) (filter (\<lambda>site. site \<noteq> failing) sites)))"
    and "adapterPostings scrapers inp failing = []"
proof -
  let ?L = "launchedSites scrapers sites"
  let ?outs = "outcomes scrapers sites inp"
  let ?run = "\<lambda>site. fst (Scrape (the (scrapers site)) inp (receiver (the (scrapers site))))"
  have distL: "distinct ?L"
    using dist by (simp add: launchedSites_def)
  have subset: "set ?L \<subseteq> set sites"
    by (auto simp: launchedSites_def)
  have each: "(site = failing \<longrightarrow> ?run site = Returns (Inl err))
      \<and> (site \<noteq> failing \<longrightarrow> (\<exists>result. ?run site = Returns (Inr result)))"
    if "site \<in> set ?L" for site
  proof (cases "site = failing")
    case True
    with fail show ?thesis by simp
  next
    case False
    from that obtain s where s: "scrapers site = Some s"
      using launched_registered by fastforce
    from that subset have "site \<in> set sites" by blast
    with ok False s obtain result where "fst (Scrape s inp (receiver s)) = Returns (Inr result)"
      by blast
    with s False show ?thesis by simp
  qed
  have each_error: "errorsOf (?run site) = (if site = failing then [err] else [])"
    if "site \<in> set ?L" for site
    using each[OF that] by (auto simp: errorsOf_def)
  have each_returns: "?run site \<noteq> Panics" if "site \<in> set ?L" for site
    using each[OF that] by (cases "site = failing") auto
  have no_panic: "Panics \<notin> set ?outs"
    unfolding outcomes_of_sites using each_returns by (auto dest: sym)
  from completion_length[OF comp] have perm: "mset completion = mset [0 ..< length ?L]" .
  show failing_none: "adapterPostings scrapers inp failing = []"
    using fail by (simp add: adapterPostings_def postingsOf_def)
  have post: "postingsOf (?outs ! i) = adapterPostings scrapers inp (?L ! i)"
    if "i \<in> set completion" for i
    by (rule postings_nth[OF completion_in_range[OF perm that]])
  have "concat (map (\<lambda>i. postingsOf (?outs ! i)) completion)
      = concat (map (\<lambda>i. adapterPostings scrapers inp (?L ! i)) completion)"
    using post by (intro arg_cong[where f = concat] map_cong) simp_all
  also have "\<dots> = concat (map (\<lambda>i. adapterPostings scrapers inp (?L ! i))
                                (filter (\<lambda>i. ?L ! i \<noteq> failing) completion))"
    using failing_none by (intro concat_map_filter_nil[symmetric]) simp
  finally have postings: "concat (map (\<lambda>i. postingsOf (?outs ! i)) completion)
      = concat (map (\<lambda>i. adapterPostings scrapers inp (?L ! i))
                                (filter (\<lambda>i. ?L ! i \<noteq> failing) completion))" .
  have "concat (map errorsOf ?outs) = concat (map (\<lambda>site. if site = failing then [err] else []) ?L)"
    unfolding outcomes_of_sites map_map comp_def
    using each_error by (intro arg_cong[where f = concat] map_cong) simp_all
  also have "\<dots> = map (\<lambda>site. err) (filter (\<lambda>site. site = failing) ?L)"
    by (rule concat_map_if)
  also have "\<dots> = (if failing \<in> set ?L then [err] else [])"
    by (simp add: filter_eq_distinct[OF distL])
  also have "failing \<in> set ?L \<longleftrightarrow> failing \<in> set sites"
    using fail by (simp add: launchedSites_def)
  finally have "mset (concat (map (\<lambda>i. errorsOf (?outs ! i)) completion))
      = mset (if failing \<in> set sites then [err] else [])"
    using logged_errors_mset[OF comp, of inp] by simp
  then have errors: "concat (map (\<lambda>i. errorsOf (?outs ! i)) completion)
      = (if failing \<in> set sites then [err] else [])"
    by (simp split: if_splits)
  show "scrapeSites scrapers sites inp completion
      = Returned
          (Inr \<lparr>Jobs = concat (map (\<lambda>i. adapterPostings scrapers inp (?L ! i))
                           (filter (\<lambda>i. ?L ! i \<noteq> failing) completion))\<rparr>)
          (map WarnNotImplemented (filter (\<lambda>site. scrapers site = None) sites)
           @ (if failing \<in> set sites then [ErrorScrapingError err] else []))"
    unfolding scrapeSites_returns[OF distL no_panic] postings errors by simp
  from perm have "mset (filter (\<lambda>i. ?L ! i \<noteq> failing) completion)
      = mset (filter (\<lambda>i. ?L ! i \<noteq> failing) [0 ..< length ?L])"
    by (simp only: mset_filter)
  from mset_concat_map_cong[OF this, of "\<lambda>i. adapterPostings scrapers inp (?L ! i)"]
  have "mset (concat (map (\<lambda>i. adapterPostings scrapers inp (?L ! i))
                                (filter (\<lambda>i. ?L ! i \<noteq> failing) completion)))
      = mset (concat (map (adapterPostings scrapers inp) (filter (\<lambda>site. site \<noteq> failing) ?L)))"
    by (simp only: concat_map_filter_nth[of "adapterPostings scrapers inp" ?L "\<lambda>site. site \<noteq> failing"])
  also have "filter (\<lambda>site. site \<noteq> failing) ?L
      = filter (\<lambda>site. scrapers site \<noteq> None) (filter (\<lambda>site. site \<noteq> failing) sites)"
    by (simp add: launchedSites_def conj_commute)
  also have "concat (map (adapterPostings scrapers inp) \<dots>)
      = concat (map (adapterPostings scrapers inp) (filter (\<lambda>site. site \<noteq> failing) sites))"
    by (intro concat_map_filter_nil) (simp add: adapterPostings_def)
  finally show "mset (concat (map (\<lambda>i. adapterPostings scrapers inp (?L ! i))
                                (filter (\<lambda>i. ?L ! i \<noteq> failing) completion)))
      = mset (concat (map (adapterPostings scrapers inp) (filter (\<lambda>site. site \<noteq> failing) sites)))" .
qed

lemma registry_launched:
  "launchedSites (registry lib world input) sites = filter (\<lambda>site. site = SiteIndeed) sites"
  by (simp add: launchedSites_def registry_def)

lemma registry_unregistered:
  "filter (\<lambda>site. registry lib world input site = None) sites
     = filter (\<lambda>site. site \<noteq> SiteIndeed) sites"
  by (simp add: registry_def)

lemma named_once:
  "distinct sites \<Longrightarrow> SiteIndeed \<in> set sites \<Longrightarrow> filter (\<lambda>site. site = SiteIndeed) sites = [SiteIndeed]"
  by (simp add: filter_eq_distinct)


lemma registry_outcomes:
  assumes "filter (\<lambda>site. site = SiteIndeed) sites = [SiteIndeed]"
  shows "outcomes (registry lib world input) sites (newScraperInput input sites)
     = [indeedOutcome lib world input sites]"
  unfolding outcomes_of_sites registry_launched assms
  by (simp add: registry_def IndeedAdapter_def indeedOutcome_def)

lemma completion_single:
  assumes "completionOf scrapers sites completion"
    and "length (launchedSites scrapers sites) = 1"
  shows "completion = [0]"
proof -
  from completion_length[OF assms(1)] assms(2) have "mset completion = mset [0]"
    by simp
  then show ?thesis by simp
qed

lemma ScrapeJobs_parsed:
  "parseSites (SiteName input) = Inr sites \<Longrightarrow>
     ScrapeJobs lib world input completion
       = (case scrapeSites (registry lib world input) sites (newScraperInput input sites)
                completion of
            Returned response records \<Rightarrow>
              Returned response (filter (\<lambda>r. SetLogLevel (Verbose input) \<le> levelOf r) records)
          | Panicked \<Rightarrow> Panicked
          | Raced \<Rightarrow> Raced)"
  by (simp add: ScrapeJobs_def)

lemma error_level_always_printed: "SetLogLevel verbose \<le> levelOf (ErrorScrapingError e)"
  by (simp add: SetLogLevel_def levelOf_def LevelError_def LevelWarn_def LevelInfo_def)

lemma ScrapeJobs_Indeed_once:
  assumes parsed: "parseSites (SiteName input) = Inr sites"
    and once: "filter (\<lambda>site. site = SiteIndeed) sites = [SiteIndeed]"
    and comp: "completionOf (registry lib world input) sites completion"
  shows "ScrapeJobs lib world input completion
     = (case indeedOutcome lib world input sites of
          Panics \<Rightarrow> Panicked
        | Returns (Inl err) \<Rightarrow>
            Returned (Inr \<lparr>Jobs = []\<rparr>)
              (filter (\<lambda>r. SetLogLevel (Verbose input) \<le> levelOf r)
                 (map WarnNotImplemented (filter (\<lambda>site. site \<noteq> SiteIndeed) sites))
               @ [ErrorScrapingError err])
        | Returns (Inr result) \<Rightarrow>
            Returned (Inr \<lparr>Jobs = Jobs result\<rparr>)
              (filter (\<lambda>r. SetLogLevel (Verbose input) \<le> levelOf r)
                 (map WarnNotImplemented (filter (\<lambda>site. site \<noteq> SiteIndeed) sites))))"
proof -
  let ?scrapers = "registry lib world input"
  let ?inp = "newScraperInput input sites"
  have L: "launchedSites ?scrapers sites = [SiteIndeed]"
    by (simp add: registry_launched once)
  then have dist: "distinct (launchedSites ?scrapers sites)"
    by simp
  have outs: "outcomes ?scrapers sites ?inp = [indeedOutcome lib world input sites]"
    by (rule registry_outcomes[OF once])
  have c: "completion = [0]"
    using completion_single[OF comp] L by simp
  show ?thesis
  proof (cases "indeedOutcome lib world input sites")
    case Panics
    then have "Panics \<in> set (outcomes ?scrapers sites ?inp)"
      by (simp add: outs)
    from scrapeSites_panics[OF dist this] Panics show ?thesis
      by (simp add: ScrapeJobs_parsed[OF parsed])
  next
    case (Returns r)
    then have "Panics \<notin> set (outcomes ?scrapers sites ?inp)"
      by (simp add: outs)
    from scrapeSites_returns[OF dist this, of completion] Returns show ?thesis
      by (cases r)
        (simp_all add: ScrapeJobs_parsed[OF parsed] outs c postingsOf_def errorsOf_def
          registry_unregistered error_level_always_printed)
  qed
qed

lemma Scrape_negative_count:
  assumes "Offset inp = 0" "ResultsWanted inp = - 5"
  shows "fst (IndeedScraper_Scrape lib world inp isc) = Panics"
  using assms
  by (simp add: applyOffsetLimit_def goSlice_def wrap64_def IndeedScraper_Scrape_def target_def Let_def)

lemma parse_indeed: "parseSites (StringsSiteName [''indeed'']) = Inr [SiteIndeed]"
  by (simp add: parseSites_def MapStringToSite_def strings_ToLower_def char_eval site_eval)

lemma ex_parse: "parseSites (SiteName exampleJobsInput) = Inr [SiteIndeed, SiteLinkedIn]"
  by (simp add: parseSites_def MapStringToSite_def strings_ToLower_def exampleJobsInput_def
      char_eval site_eval)


lemma ex_completion: "completionOf (registry lib world input) [SiteIndeed, SiteLinkedIn] [0]"
  by (simp add: completionOf_def registry_def List.map_filter_def site_eval)

lemma ex_down:
  "indeedOutcome exampleLib downWorld exampleJobsInput [SiteIndeed, SiteLinkedIn]
     = Returns (Inl (ErrScrapingPage 1 (ErrMakingRequest ''connection refused'')))"
  by (simp add: orchestrator_eval walk_eval site_eval char_eval)


lemma ex_found:
  "indeedOutcome exampleLib exampleWorld exampleJobsInput [SiteIndeed, SiteLinkedIn]
     = Returns (Inr \<lparr>Jobs = [examplePosting ''https://www.indeed.com'' ''a1'' ''Dev'',
                               examplePosting ''https://www.indeed.com'' ''b2'' ''SRE'',
                               examplePosting ''https://www.indeed.com'' ''c3'' ''QA'']\<rparr>)"
  by (simp add: orchestrator_eval examplePosting_def walk_eval card_eval example_eval site_eval
      char_eval)

lemma ex_adapters:
  "fst (IndeedScraper_Scrape exampleLib exampleWorld exampleInput (NewIndeedScraper [] []))
     = Returns (Inr \<lparr>Jobs = [examplePosting ''https://www.indeed.com'' ''a1'' ''Dev'',
                               examplePosting ''https://www.indeed.com'' ''b2'' ''SRE'',
                               examplePosting ''https://www.indeed.com'' ''c3'' ''QA'']\<rparr>)"
  "fst (IndeedScraper_Scrape exampleLib downWorld exampleInput (NewIndeedScraper [] []))
     = Returns (Inl (ErrScrapingPage 1 (ErrMakingRequest ''connection refused'')))"
  "fst (IndeedScraper_Scrape exampleLib repeatingWorld exampleInput (NewIndeedScraper [] []))
     = Returns (Inr \<lparr>Jobs = [examplePosting ''https://www.indeed.com'' ''a1'' ''Dev'',
                               examplePosting ''https://www.indeed.com'' ''b2'' ''SRE'']\<rparr>)"
  by (simp_all add: orchestrator_eval examplePosting_def repeatingWorld_def walk_eval card_eval
      example_eval site_eval char_eval)

text \<open>
  C2. Among a set of sources, let the adapter of one site fail and let every other adapter
  return a result. For any map of scrapers, the loop, the join and the collection of
  \<open>ScrapeJobs\<close> then return, in the order in which the goroutines finish, the postings of
  each of the other adapters, whole and in the adapter's own order; as a multiset they are
  the postings of all the other adapters. The failing adapter contributes no posting and one
  error record, and nothing of the other adapters is cancelled or changed. \<open>ScrapeJobs\<close> is
  this loop run on the map that it builds, which holds the Indeed adapter only: when Indeed
  is among the sources and its adapter fails, \<open>ScrapeJobs\<close> returns no posting and a nil
  error; when it succeeds, \<open>ScrapeJobs\<close> returns its postings in full, whatever other
  sources are named.
\<close>

theorem one_failing_adapter_leaves_siblings:
  "(distinct sites \<and> completionOf scrapers sites completion
      \<and> scrapers failing = Some sf \<and> fst (Scrape sf inp (receiver sf)) = Returns (Inl err)
      \<and> (\<forall>site \<in> set sites. site \<noteq> failing \<longrightarrow>
            (\<forall>s. scrapers site = Some s \<longrightarrow>
               (\<exists>result. fst (Scrape s inp (receiver s)) = Returns (Inr result))))
     \<longrightarrow> scrapeSites scrapers sites inp completion
          = Returned
              (Inr \<lparr>Jobs = concat (map (\<lambda>i. adapterPostings scrapers inp
                                              (launchedSites scrapers sites ! i))
                                (filter (\<lambda>i. launchedSites scrapers sites ! i \<noteq> failing)
                                   completion))\<rparr>)
              (map WarnNotImplemented (filter (\<lambda>site. scrapers site = None) sites)
               @ (if failing \<in> set sites then [ErrorScrapingError err] else []))
        \<and> mset (concat (map (\<lambda>i. adapterPostings scrapers inp (launchedSites scrapers sites ! i))
                          (filter (\<lambda>i. launchedSites scrapers sites ! i \<noteq> failing) completion)))
          = mset (concat (map (adapterPostings scrapers inp)
                           (filter (\<lambda>site. site \<noteq> failing) sites)))
        \<and> adapterPostings scrapers inp failing = [])
   \<and> (parseSites (SiteName input) = Inr sites
        \<longrightarrow> ScrapeJobs lib world input completion
            = (case scrapeSites (registry lib world input) sites (newScraperInput input sites)
                     completion of
                 Returned response records \<Rightarrow>
                   Returned response
                     (filter (\<lambda>r. SetLogLevel (Verbose input) \<le> levelOf r) records)
               | Panicked \<Rightarrow> Panicked
               | Raced \<Rightarrow> Raced))
   \<and> (parseSites (SiteName input) = Inr sites \<and> distinct sites \<and> SiteIndeed \<in> set sites
        \<and> completionOf (registry lib world input) sites completion
        \<longrightarrow> ScrapeJobs lib world input completion
            = (case indeedOutcome lib world input sites of
                 Panics \<Rightarrow> Panicked
               | Returns (Inl e) \<Rightarrow>
                   Returned (Inr \<lparr>Jobs = []\<rparr>)
                     (filter (\<lambda>r. SetLogLevel (Verbose input) \<le> levelOf r)
                        (map WarnNotImplemented (filter (\<lambda>site. site \<noteq> SiteIndeed) sites))
                      @ [ErrorScrapingError e])
               | Returns (Inr result) \<Rightarrow>
                   Returned (Inr \<lparr>Jobs = Jobs result\<rparr>)
                     (filter (\<lambda>r. SetLogLevel (Verbose input) \<le> levelOf r)
                        (map WarnNotImplemented (filter (\<lambda>site. site \<noteq> SiteIndeed) sites)))))"
proof (intro conjI impI)
  assume h: "distinct sites \<and> completionOf scrapers sites completion
      \<and> scrapers failing = Some sf \<and> fst (Scrape sf inp (receiver sf)) = Returns (Inl err)
      \<and> (\<forall>site \<in> set sites. site \<noteq> failing \<longrightarrow>
            (\<forall>s. scrapers site = Some s \<longrightarrow>
               (\<exists>result. fst (Scrape s inp (receiver s)) = Returns (Inr result))))"
  then have dist: "distinct sites"
    and comp: "completionOf scrapers sites completion"
    and fail: "scrapers failing = Some sf" "fst (Scrape sf inp (receiver sf)) = Returns (Inl err)"
    and ok: "\<forall>site \<in> set sites. site \<noteq> failing \<longrightarrow>
            (\<forall>s. scrapers site = Some s \<longrightarrow>
               (\<exists>result. fst (Scrape s inp (receiver s)) = Returns (Inr result)))"
    by blast+
  note claim = one_failing[OF dist comp fail ok]
  show "scrapeSites scrapers sites inp completion
          = Returned
              (Inr \<lparr>Jobs = concat (map (\<lambda>i. adapterPostings scrapers inp
                                              (launchedSites scrapers sites ! i))
                                (filter (\<lambda>i. launchedSites scrapers sites ! i \<noteq> failing)
                                   completion))\<rparr>)
              (map WarnNotImplemented (filter (\<lambda>site. scrapers site = None) sites)
               @ (if failing \<in> set sites then [ErrorScrapingError err] else []))"
    by (rule claim(1))
  show "mset (concat (map (\<lambda>i. adapterPostings scrapers inp (launchedSites scrapers sites ! i))
                          (filter (\<lambda>i. launchedSites scrapers sites ! i \<noteq> failing) completion)))
          = mset (concat (map (adapterPostings scrapers inp)
                           (filter (\<lambda>site. site \<noteq> failing) sites)))"
    by (rule claim(2))
  show "adapterPostings scrapers inp failing = []"
    by (rule claim(3))
next
  assume "parseSites (SiteName input) = Inr sites"
  then show "ScrapeJobs lib world input completion
            = (case scrapeSites (registry lib world input) sites (newScraperInput input sites)
                     completion of
                 Returned response records \<Rightarrow>
                   Returned response
                     (filter (\<lambda>r. SetLogLevel (Verbose input) \<le> levelOf r) records)
               | Panicked \<Rightarrow> Panicked
               | Raced \<Rightarrow> Raced)"
    by (rule ScrapeJobs_parsed)
next
  assume h: "parseSites (SiteName input) = Inr sites \<and> distinct sites \<and> SiteIndeed \<in> set sites
        \<and> completionOf (registry lib world input) sites completion"
  then have once: "filter (\<lambda>site. site = SiteIndeed) sites = [SiteIndeed]"
    using named_once by blast
  from h have parsed: "parseSites (SiteName input) = Inr sites"
    and comp: "completionOf (registry lib world input) sites completion"
    by blast+
  show "ScrapeJobs lib world input completion
            = (case indeedOutcome lib world input sites of
                 Panics \<Rightarrow> Panicked
               | Returns (Inl e) \<Rightarrow>
                   Returned (Inr \<lparr>Jobs = []\<rparr>)
                     (filter (\<lambda>r. SetLogLevel (Verbose input) \<le> levelOf r)
                        (map WarnNotImplemented (filter (\<lambda>site. site \<noteq> SiteIndeed) sites))
                      @ [ErrorScrapingError e])
               | Returns (Inr result) \<Rightarrow>
                   Returned (Inr \<lparr>Jobs = Jobs result\<rparr>)
                     (filter (\<lambda>r. SetLogLevel (Verbose input) \<le> levelOf r)
                        (map WarnNotImplemented (filter (\<lambda>site. site \<noteq> SiteIndeed) sites))))"
    by (rule ScrapeJobs_Indeed_once[OF parsed once comp])
qed

lemma ex_registry_facts:
  "launchedSites exampleRegistry [SiteIndeed, SiteLinkedIn, SiteGoogle]
     = [SiteIndeed, SiteLinkedIn, SiteGoogle]"
  "filter (\<lambda>site. exampleRegistry site = None) [SiteIndeed, SiteLinkedIn, SiteGoogle] = []"
  "distinct [SiteIndeed, SiteLinkedIn, SiteGoogle]"
  "exampleRegistry SiteLinkedIn = Some (IndeedAdapter exampleLib downWorld (NewIndeedScraper [] []))"
  by (simp_all add: launchedSites_def exampleRegistry_def site_eval)

lemma ex_sites_differ: "SiteIndeed \<noteq> SiteLinkedIn" "SiteGoogle \<noteq> SiteLinkedIn"
  by (simp_all add: site_eval)

lemma ex_registry_postings:
  "adapterPostings exampleRegistry exampleInput SiteIndeed
     = [examplePosting ''https://www.indeed.com'' ''a1'' ''Dev'',
        examplePosting ''https://www.indeed.com'' ''b2'' ''SRE'',
        examplePosting ''https://www.indeed.com'' ''c3'' ''QA'']"
  "adapterPostings exampleRegistry exampleInput SiteGoogle
     = [examplePosting ''https://www.indeed.com'' ''a1'' ''Dev'',
        examplePosting ''https://www.indeed.com'' ''b2'' ''SRE'']"
  by (simp_all add: adapterPostings_def exampleRegistry_def IndeedAdapter_def postingsOf_def
      ex_adapters site_eval)


lemma ex_registry_completion:
  "completionOf exampleRegistry [SiteIndeed, SiteLinkedIn, SiteGoogle] [2, 0, 1]"
  "completionOf exampleRegistry [SiteIndeed, SiteLinkedIn, SiteGoogle] [1, 2, 0]"
  by (simp_all add: completionOf_def List.map_filter_def exampleRegistry_def site_eval
      upt_rec[of 0] upt_rec[of 1] upt_rec[of 2] numeral_3_eq_3)

theorem one_failing_adapter_leaves_siblings_witness:
  "scrapeSites exampleRegistry [SiteIndeed, SiteLinkedIn, SiteGoogle] exampleInput [2, 0, 1]
     = Returned
         (Inr \<lparr>Jobs = [examplePosting ''https://www.indeed.com'' ''a1'' ''Dev'',
                        examplePosting ''https://www.indeed.com'' ''b2'' ''SRE'',
                        examplePosting ''https://www.indeed.com'' ''a1'' ''Dev'',
                        examplePosting ''https://www.indeed.com'' ''b2'' ''SRE'',
                        examplePosting ''https://www.indeed.com'' ''c3'' ''QA'']\<rparr>)
         [ErrorScrapingError (ErrScrapingPage 1 (ErrMakingRequest ''connection refused''))]
   \<and> ScrapeJobs exampleLib downWorld exampleJobsInput [0]
     = Returned (Inr \<lparr>Jobs = []\<rparr>)
         [WarnNotImplemented SiteLinkedIn,
          ErrorScrapingError (ErrScrapingPage 1 (ErrMakingRequest ''connection refused''))]
   \<and> ScrapeJobs exampleLib exampleWorld exampleJobsInput [0]
     = Returned
         (Inr \<lparr>Jobs = [examplePosting ''https://www.indeed.com'' ''a1'' ''Dev'',
                        examplePosting ''https://www.indeed.com'' ''b2'' ''SRE'',
                        examplePosting ''https://www.indeed.com'' ''c3'' ''QA'']\<rparr>)
         [WarnNotImplemented SiteLinkedIn]"
proof -
  let ?sites = "[SiteIndeed, SiteLinkedIn, SiteGoogle]"
  let ?sf = "IndeedAdapter exampleLib downWorld (NewIndeedScraper [] [])"
  let ?err = "ErrScrapingPage 1 (ErrMakingRequest ''connection refused'')"
  have fail: "fst (Scrape ?sf exampleInput (receiver ?sf)) = Returns (Inl ?err)"
    by (simp add: IndeedAdapter_def ex_adapters)
  have ok: "\<forall>site \<in> set ?sites. site \<noteq> SiteLinkedIn \<longrightarrow>
        (\<forall>s. exampleRegistry site = Some s \<longrightarrow>
           (\<exists>result. fst (Scrape s exampleInput (receiver s)) = Returns (Inr result)))"
    by (simp add: exampleRegistry_def IndeedAdapter_def ex_adapters site_eval)
  from one_failing_adapter_leaves_siblings[where scrapers = exampleRegistry
      and sites = ?sites and completion = "[2, 0, 1]" and failing = SiteLinkedIn
      and inp = exampleInput and sf = ?sf and err = ?err]
    ex_registry_facts(3,4) ex_registry_completion(1) fail ok
  have "scrapeSites exampleRegistry ?sites exampleInput [2, 0, 1]
     = Returned
         (Inr \<lparr>Jobs = concat (map (\<lambda>i. adapterPostings exampleRegistry exampleInput
                                         (launchedSites exampleRegistry ?sites ! i))
                           (filter (\<lambda>i. launchedSites exampleRegistry ?sites ! i \<noteq> SiteLinkedIn)
                              [2, 0, 1]))\<rparr>)
         (map WarnNotImplemented (filter (\<lambda>site. exampleRegistry site = None) ?sites)
          @ (if SiteLinkedIn \<in> set ?sites then [ErrorScrapingError ?err] else []))"
    by blast
  then have generic: "scrapeSites exampleRegistry ?sites exampleInput [2, 0, 1]
     = Returned
         (Inr \<lparr>Jobs = [examplePosting ''https://www.indeed.com'' ''a1'' ''Dev'',
                        examplePosting ''https://www.indeed.com'' ''b2'' ''SRE'',
                        examplePosting ''https://www.indeed.com'' ''a1'' ''Dev'',
                        examplePosting ''https://www.indeed.com'' ''b2'' ''SRE'',
                        examplePosting ''https://www.indeed.com'' ''c3'' ''QA'']\<rparr>)
         [ErrorScrapingError ?err]"
    unfolding ex_registry_facts by (simp add: ex_registry_postings ex_sites_differ)
  have named: "distinct [SiteIndeed, SiteLinkedIn] \<and> SiteIndeed \<in> set [SiteIndeed, SiteLinkedIn]"
    by (simp add: site_eval)
  have level: "filter (\<lambda>r. SetLogLevel (Verbose exampleJobsInput) \<le> levelOf r)
        (map WarnNotImplemented (filter (\<lambda>site. site \<noteq> SiteIndeed) [SiteIndeed, SiteLinkedIn]))
      = [WarnNotImplemented SiteLinkedIn]"
    by (simp add: exampleJobsInput_def SetLogLevel_def levelOf_def LevelWarn_def site_eval)
  from one_failing_adapter_leaves_siblings[where input = exampleJobsInput
      and sites = "[SiteIndeed, SiteLinkedIn]" and lib = exampleLib and world = downWorld
      and completion = "[0]"]
    ex_parse named ex_completion[of exampleLib downWorld exampleJobsInput]
  have "ScrapeJobs exampleLib downWorld exampleJobsInput [0]
      = (case indeedOutcome exampleLib downWorld exampleJobsInput [SiteIndeed, SiteLinkedIn] of
           Panics \<Rightarrow> Panicked
         | Returns (Inl e) \<Rightarrow>
             Returned (Inr \<lparr>Jobs = []\<rparr>)
               (filter (\<lambda>r. SetLogLevel (Verbose exampleJobsInput) \<le> levelOf r)
                  (map WarnNotImplemented
                     (filter (\<lambda>site. site \<noteq> SiteIndeed) [SiteIndeed, SiteLinkedIn]))
                @ [ErrorScrapingError e])
         | Returns (Inr result) \<Rightarrow>
             Returned (Inr \<lparr>Jobs = Jobs result\<rparr>)
               (filter (\<lambda>r. SetLogLevel (Verbose exampleJobsInput) \<le> levelOf r)
                  (map WarnNotImplemented
                     (filter (\<lambda>site. site \<noteq> SiteIndeed) [SiteIndeed, SiteLinkedIn]))))"
    by blast
  then have failed: "ScrapeJobs exampleLib downWorld exampleJobsInput [0]
     = Returned (Inr \<lparr>Jobs = []\<rparr>) [WarnNotImplemented SiteLinkedIn, ErrorScrapingError ?err]"
    unfolding ex_down level by simp
  from one_failing_adapter_leaves_siblings[where input = exampleJobsInput
      and sites = "[SiteIndeed, SiteLinkedIn]" and lib = exampleLib and world = exampleWorld
      and completion = "[0]"]
    ex_parse named ex_completion[of exampleLib exampleWorld exampleJobsInput]
  have "ScrapeJobs exampleLib exampleWorld exampleJobsInput [0]
      = (case indeedOutcome exampleLib exampleWorld exampleJobsInput [SiteIndeed, SiteLinkedIn] of
           Panics \<Rightarrow> Panicked
         | Returns (Inl e) \<Rightarrow>
             Returned (Inr \<lparr>Jobs = []\<rparr>)
               (filter (\<lambda>r. SetLogLevel (Verbose exampleJobsInput) \<le> levelOf r)
                  (map WarnNotImplemented
                     (filter (\<lambda>site. site \<noteq> SiteIndeed) [SiteIndeed, SiteLinkedIn]))
                @ [ErrorScrapingError e])
         | Returns (Inr result) \<Rightarrow>
             Returned (Inr \<lparr>Jobs = Jobs result\<rparr>)
               (filter (\<lambda>r. SetLogLevel (Verbose exampleJobsInput) \<le> levelOf r)
                  (map WarnNotImplemented
                     (filter (\<lambda>site. site \<noteq> SiteIndeed) [SiteIndeed, SiteLinkedIn]))))"
    by blast
  then have found: "ScrapeJobs exampleLib exampleWorld exampleJobsInput [0]
     = Returned
         (Inr \<lparr>Jobs = [examplePosting ''https://www.indeed.com'' ''a1'' ''Dev'',
                        examplePosting ''https://www.indeed.com'' ''b2'' ''SRE'',
                        examplePosting ''https://www.indeed.com'' ''c3'' ''QA'']\<rparr>)
         [WarnNotImplemented SiteLinkedIn]"
    unfolding ex_found level by simp
  from generic failed found show ?thesis
    by blast
qed

lemma ScrapeJobs_returns_when_adapters_return:
  assumes "parseSites (SiteName input) = Inr sites"
    and "distinct (launchedSites (registry lib world input) sites)"
    and "Panics \<notin> set (outcomes (registry lib world input) sites (newScraperInput input sites))"
  shows "\<exists>jobs records. ScrapeJobs lib world input completion = Returned (Inr \<lparr>Jobs = jobs\<rparr>) records"
  using scrapeSites_returns[OF assms(2,3), of completion]
  by (simp add: ScrapeJobs_parsed[OF assms(1)])

lemma unregistered_sites_skipped:
  "scrapeSites scrapers sites inp completion
     = (case scrapeSites scrapers (launchedSites scrapers sites) inp completion of
          Returned response records \<Rightarrow>
            Returned response
              (map WarnNotImplemented (filter (\<lambda>site. scrapers site = None) sites) @ records)
        | Panicked \<Rightarrow> Panicked
        | Raced \<Rightarrow> Raced)"
proof -
  have again: "launchedSites scrapers (launchedSites scrapers sites) = launchedSites scrapers sites"
    by (simp add: launchedSites_def)
  have launched: "List.map_filter scrapers (launchedSites scrapers sites) = List.map_filter scrapers sites"
    by (simp add: launched_of_sites again)
  have none: "filter (\<lambda>site. scrapers site = None) (launchedSites scrapers sites) = []"
    by (induction sites) (auto simp: launchedSites_def)
  show ?thesis
    unfolding scrapeSites_def Let_def again launched none by simp
qed

text \<open>
  C10, at an input where the code fails. With \<^verbatim>\<open>-sites indeed -results -5\<close> on the command
  line (the site \<open>indeed\<close>, \<open>ResultsWanted = -5\<close>, no offset) \<open>parseSites\<close> succeeds, the one
  goroutine started panics on the slice expression of \<open>Scrape\<close>, and the panic ends the
  process: \<open>ScrapeJobs\<close> does not return a nil error, whatever the network answers. This is
  the defect of C5, seen from \<open>ScrapeJobs\<close>. Where the adapters started return,
  \<open>ScrapeJobs\<close> returns a nil error, and a site without a scraper only adds its warning
  (the two lemmas above).
\<close>

theorem ScrapeJobs_negative_count_panics:
  "ScrapeJobs lib world
       (input\<lparr>SiteName := StringsSiteName [''indeed''], ResultsWanted_sj := Some (- 5),
              Offset_sj := None\<rparr>)
       completion
     = Panicked"
proof -
  let ?input = "input\<lparr>SiteName := StringsSiteName [''indeed''], ResultsWanted_sj := Some (- 5),
      Offset_sj := None\<rparr>"
  have parsed: "parseSites (SiteName ?input) = Inr [SiteIndeed]"
    by (simp add: parse_indeed)
  have once: "filter (\<lambda>site. site = SiteIndeed) [SiteIndeed] = [SiteIndeed]"
    by simp
  have "indeedOutcome lib world ?input [SiteIndeed] = Panics"
    unfolding indeedOutcome_def
    by (rule Scrape_negative_count) (simp_all add: newScraperInput_def)
  then have panics: "Panics \<in> set (outcomes (registry lib world ?input) [SiteIndeed]
        (newScraperInput ?input [SiteIndeed]))"
    by (simp add: registry_outcomes[OF once])
  have dist: "distinct (launchedSites (registry lib world ?input) [SiteIndeed])"
    by (simp add: registry_launched)
  show ?thesis
    unfolding ScrapeJobs_parsed[OF parsed] scrapeSites_panics[OF dist panics] by simp
qed




end
